theory Spec2Isabelle
  imports Complex_Main "HOL-Library.AList" "HOL-Library.Sublist"
begin

section \<open>JavaScript values\<close>

text \<open>
  The values the analysis service handles are JSON documents: the payload of a request,
  the reply of the model, the validated analysis. A JavaScript number is an IEEE double;
  every finite double is a rational number, and a number is carried by its exact value
  (\<open>NaN\<close> and the infinities, which no claim below is about, are left out). A string
  is the list of its code units, taken from Isabelle's characters. An object is the
  list of its properties in insertion order; a property read takes the first entry of
  a key.
\<close>

datatype json =
    JNull
  | JBool bool
  | JNum rat
  | JStr string
  | JArr "json list"
  | JObj "(string \<times> json) list"

text \<open>\<open>v.k\<close> (and \<open>v?.k\<close>): \<open>None\<close> is \<open>undefined\<close>. None of the keys the
  service reads is a built-in property of an array or of a primitive.\<close>

fun js_get :: "string \<Rightarrow> json \<Rightarrow> json option" where
  "js_get k (JObj fs) = map_of fs k"
| "js_get k _ = None"

text \<open>\<open>!!v\<close>: \<open>null\<close>, \<open>false\<close>, \<open>0\<close> and the empty string are falsy.\<close>

fun truthy :: "json \<Rightarrow> bool" where
  "truthy JNull = False"
| "truthy (JBool b) = b"
| "truthy (JNum n) = (n \<noteq> 0)"
| "truthy (JStr s) = (s \<noteq> [])"
| "truthy (JArr _) = True"
| "truthy (JObj _) = True"

fun truthy_opt :: "json option \<Rightarrow> bool" where
  "truthy_opt None = False"
| "truthy_opt (Some v) = truthy v"

text \<open>\<open>a || b\<close> on possibly undefined values.\<close>

definition js_or :: "json option \<Rightarrow> json option \<Rightarrow> json option" where
  "js_or a b = (if truthy_opt a then a else b)"

text \<open>\<open>s.includes(sub)\<close>.\<close>

fun js_includes :: "string \<Rightarrow> string \<Rightarrow> bool" where
  "js_includes [] sub = (sub = [])"
| "js_includes (c # cs) sub = (prefix sub (c # cs) \<or> js_includes cs sub)"

section \<open>Errors, logs and the trace of a call\<close>

text \<open>
  What an operation rejects with: an error object with the properties the retry wrapper
  reads (\<open>err.message\<close>, \<open>err.response.status\<close>, \<open>err.status\<close>, \<open>err.code\<close>),
  each \<open>None\<close> when undefined.
\<close>

record error_obj =
  message :: "string option"
  response_status :: "json option"
  status :: "json option"
  code :: "json option"

text \<open>\<open>new Error(msg)\<close>.\<close>

definition js_Error :: "string \<Rightarrow> error_obj" where
  "js_Error msg = \<lparr>message = Some msg, response_status = None, status = None, code = None\<rparr>"

datatype level = Info | Warn | Err

text \<open>One call of the logger: level, the logged fields, the text.\<close>

datatype log_entry = Log level "(string \<times> json) list" string

text \<open>An error object as a logged field: its defined properties.\<close>

definition err_fields :: "error_obj \<Rightarrow> json" where
  "err_fields e = JObj (
     (case message e of None \<Rightarrow> [] | Some m \<Rightarrow> [(''message'', JStr m)]) @
     (case response_status e of None \<Rightarrow> [] | Some s \<Rightarrow> [(''response'', JObj [(''status'', s)])]) @
     (case status e of None \<Rightarrow> [] | Some s \<Rightarrow> [(''status'', s)]) @
     (case code e of None \<Rightarrow> [] | Some s \<Rightarrow> [(''code'', s)]))"

text \<open>
  What a call leaves behind besides its result: how often the wrapped operation was
  invoked, the sleeps (in milliseconds, in order) and the log.
\<close>

record trace =
  calls :: nat
  delays :: "nat list"
  logs :: "log_entry list"

definition trace0 :: trace where
  "trace0 = \<lparr>calls = 0, delays = [], logs = []\<rparr>"

section \<open>The retry wrappers\<close>

text \<open>
  The repository holds two versions of \<open>services/analyzeService.ts\<close>, each with its
  own \<open>withRetries\<close> and \<open>analyzeMerged\<close>: one validates against the single schema
  \<open>AnalysisSchema\<close> and retries with classification and exponential backoff; the
  other validates against \<open>AnalysisV2\<close> and \<open>LegacyAnalysis\<close> (the two-shape
  service) and retries every error after a fixed delay. Both are modelled; the
  definitions of the second carry the suffix \<open>_fixed\<close> or \<open>_v2\<close>.

  The wrapped operation \<open>fn\<close> is given by the outcome of each of its invocations:
  \<open>fn n\<close> is what the invocation after \<open>n\<close> earlier ones settles with, \<open>Inl\<close> a
  rejection. A wrapper returns \<open>Inr\<close> the value or \<open>Inl\<close> what it throws;
  \<open>Inl None\<close> is \<open>throw lastErr\<close> with \<open>lastErr\<close> never assigned. The number of
  attempts and the delays are natural numbers. The long dash in the text of the
  wrapper's warning is written as a hyphen.
\<close>

subsection \<open>\<open>withRetries\<close> of \<open>services/analyzeService.ts\<close>: classification, exponential backoff\<close>

text \<open>\<open>err?.response?.status || err?.status || err?.code\<close>\<close>

definition status_of :: "error_obj \<Rightarrow> json option" where
  "status_of e = js_or (js_or (response_status e) (status e)) (code e)"

text \<open>\<open>err?.message?.includes('rate limit') || status === 429\<close>\<close>

definition isRateLimit :: "error_obj \<Rightarrow> bool" where
  "isRateLimit e =
     ((case message e of None \<Rightarrow> False | Some m \<Rightarrow> js_includes m ''rate limit'')
      \<or> status_of e = Some (JNum 429))"

text \<open>\<open>typeof status === 'number' && status >= 500\<close>\<close>

definition is_5xx :: "json option \<Rightarrow> bool" where
  "is_5xx s = (case s of Some (JNum n) \<Rightarrow> n \<ge> 500 | _ \<Rightarrow> False)"

text \<open>The condition under which the wrapper sleeps and tries again.\<close>

definition transient :: "error_obj \<Rightarrow> bool" where
  "transient e = (isRateLimit e \<or> is_5xx (status_of e) \<or> \<not> truthy_opt (status_of e))"

function withRetries_loop ::
  "(nat \<Rightarrow> error_obj + 'a) \<Rightarrow> nat \<Rightarrow> nat \<Rightarrow> nat \<Rightarrow> error_obj option \<Rightarrow> trace
     \<Rightarrow> (error_obj option + 'a) \<times> trace"
where
  "withRetries_loop fn retries baseDelayMs i lastErr tr =
     (if i < retries then
        (case fn (calls tr) of
           Inr v \<Rightarrow> (Inr v, tr\<lparr>calls := calls tr + 1\<rparr>)
         | Inl err \<Rightarrow>
             if transient err then
               (let delay = baseDelayMs * 2 ^ i in
                withRetries_loop fn retries baseDelayMs (i + 1) (Some err)
                  (tr\<lparr>calls := calls tr + 1,
                      delays := delays tr @ [delay],
                      logs := logs tr @
                        [Log Warn [(''err'', err_fields err), (''attempt'', JNum (of_nat (i + 1))),
                                   (''delay'', JNum (of_nat delay))]
                           ''Transient error from analyzeWithGroq - retrying'']\<rparr>))
             else (Inl (Some err), tr\<lparr>calls := calls tr + 1\<rparr>))
      else (Inl lastErr, tr))"
  by pat_completeness auto
termination
  by (relation "measure (\<lambda>(fn, retries, baseDelayMs, i, lastErr, tr). retries - i)") auto

definition withRetries ::
  "(nat \<Rightarrow> error_obj + 'a) \<Rightarrow> nat \<Rightarrow> nat \<Rightarrow> (error_obj option + 'a) \<times> trace" where
  "withRetries fn retries baseDelayMs = withRetries_loop fn retries baseDelayMs 0 None trace0"

subsection \<open>\<open>withRetries\<close> of the two-shape service: every error retried, fixed delay\<close>

function withRetries_fixed_loop ::
  "(nat \<Rightarrow> error_obj + 'a) \<Rightarrow> nat \<Rightarrow> nat \<Rightarrow> nat \<Rightarrow> error_obj option \<Rightarrow> trace
     \<Rightarrow> (error_obj option + 'a) \<times> trace"
where
  "withRetries_fixed_loop fn retries delayMs i lastErr tr =
     (if i < retries then
        (case fn (calls tr) of
           Inr v \<Rightarrow> (Inr v, tr\<lparr>calls := calls tr + 1\<rparr>)
         | Inl err \<Rightarrow>
             withRetries_fixed_loop fn retries delayMs (i + 1) (Some err)
               (tr\<lparr>calls := calls tr + 1,
                   delays := delays tr @ (if i + 1 < retries then [delayMs] else []),
                   logs := logs tr @
                     [Log Warn ((''attempt'', JNum (of_nat (i + 1))) #
                                (case message err of None \<Rightarrow> [] | Some m \<Rightarrow> [(''error'', JStr m)]))
                        ''Retrying analyzeWithGroq...'']\<rparr>))
      else (Inl lastErr, tr))"
  by pat_completeness auto
termination
  by (relation "measure (\<lambda>(fn, retries, delayMs, i, lastErr, tr). retries - i)") auto

definition withRetries_fixed ::
  "(nat \<Rightarrow> error_obj + 'a) \<Rightarrow> nat \<Rightarrow> nat \<Rightarrow> (error_obj option + 'a) \<times> trace" where
  "withRetries_fixed fn retries delayMs = withRetries_fixed_loop fn retries delayMs 0 None trace0"

section \<open>Validation: the schemas of the service\<close>

text \<open>
  The service validates with the zod library. A schema is built from the constructors
  below; \<open>safeParse\<close> returns the parsed data, or \<open>None\<close> where zod reports
  \<open>success: false\<close>. An object schema keeps the declared keys, in the order of the
  schema, and drops every other key of the input (zod's default for \<open>z.object\<close>);
  a declared key that is absent is left out of the data when its schema accepts
  \<open>undefined\<close> and fails the validation otherwise. \<open>null\<close> is not \<open>undefined\<close>:
  an optional string that is \<open>null\<close> fails.
\<close>

datatype zod =
    ZString
  | ZNumber
  | ZNumber_int_nonnegative
  | ZBoolean
  | ZAny
  | ZArray zod
  | ZObject "(string \<times> zod) list"
  | ZOptional zod

fun accepts_undefined :: "zod \<Rightarrow> bool" where
  "accepts_undefined (ZOptional _) = True"
| "accepts_undefined ZAny = True"
| "accepts_undefined _ = False"

fun safeParse :: "zod \<Rightarrow> json \<Rightarrow> json option"
  and parse_shape :: "(string \<times> zod) list \<Rightarrow> (string \<times> json) list \<Rightarrow> (string \<times> json) list option"
where
  "safeParse ZString v = (case v of JStr _ \<Rightarrow> Some v | _ \<Rightarrow> None)"
| "safeParse ZNumber v = (case v of JNum _ \<Rightarrow> Some v | _ \<Rightarrow> None)"
| "safeParse ZNumber_int_nonnegative v =
     (case v of JNum n \<Rightarrow> if of_int \<lfloor>n\<rfloor> = n \<and> 0 \<le> n then Some v else None | _ \<Rightarrow> None)"
| "safeParse ZBoolean v = (case v of JBool _ \<Rightarrow> Some v | _ \<Rightarrow> None)"
| "safeParse ZAny v = Some v"
| "safeParse (ZArray s) v =
     (case v of JArr xs \<Rightarrow> map_option JArr (those (map (safeParse s) xs)) | _ \<Rightarrow> None)"
| "safeParse (ZObject shape) v =
     (case v of JObj fs \<Rightarrow> map_option JObj (parse_shape shape fs) | _ \<Rightarrow> None)"
| "safeParse (ZOptional s) v = safeParse s v"
| "parse_shape [] fs = Some []"
| "parse_shape ((k, s) # rest) fs =
     (case map_of fs k of
        None \<Rightarrow> if accepts_undefined s then parse_shape rest fs else None
      | Some v \<Rightarrow>
          (case safeParse s v of
             None \<Rightarrow> None
           | Some v' \<Rightarrow> map_option ((#) (k, v')) (parse_shape rest fs)))"

text \<open>\<open>Pred\<close>: one prediction of the two-shape service.\<close>

definition Pred :: zod where
  "Pred = ZObject
     [(''condition'', ZString),
      (''years'', ZNumber),
      (''probability_pct'', ZNumber),
      (''rationale'', ZOptional ZString),
      (''preventable'', ZOptional ZBoolean),
      (''interventions'', ZOptional (ZArray ZString)),
      (''citations'', ZOptional (ZArray ZString))]"

definition top_features_schema :: zod where
  "top_features_schema = ZObject
     [(''top_features'', ZArray (ZObject [(''feature'', ZString), (''impact'', ZNumber)]))]"

text \<open>\<open>AnalysisV2\<close>: the current shape (baseline, projection, deltas).\<close>

definition AnalysisV2 :: zod where
  "AnalysisV2 = ZObject
     [(''model_version'', ZString),
      (''generated_on'', ZString),
      (''summary'', ZOptional ZString),
      (''baseline'', ZOptional (ZObject [(''predictions'', ZArray Pred)])),
      (''projection'', ZOptional (ZObject [(''predictions'', ZArray Pred)])),
      (''deltas'', ZOptional (ZArray (ZObject
         [(''condition'', ZString),
          (''baseline_pct'', ZNumber),
          (''projection_pct'', ZNumber),
          (''delta_pct'', ZNumber)]))),
      (''explainability'', ZOptional top_features_schema)]"

text \<open>\<open>LegacyAnalysis\<close>: the older shape, a flat list of predictions.\<close>

definition LegacyAnalysis :: zod where
  "LegacyAnalysis = ZObject
     [(''model_version'', ZOptional ZString),
      (''generated_on'', ZOptional ZString),
      (''summary'', ZOptional ZString),
      (''predictions'', ZOptional (ZArray Pred)),
      (''explainability'', ZOptional ZAny)]"

text \<open>\<open>PredictionSchema\<close> and \<open>AnalysisSchema\<close> of \<open>services/analyzeService.ts\<close>.\<close>

definition PredictionSchema :: zod where
  "PredictionSchema = ZObject
     [(''condition'', ZString),
      (''years'', ZNumber_int_nonnegative),
      (''probability_pct'', ZNumber),
      (''rationale'', ZOptional ZString),
      (''preventable'', ZOptional ZBoolean),
      (''interventions'', ZOptional (ZArray ZString)),
      (''citations'', ZOptional (ZArray ZString))]"

definition AnalysisSchema :: zod where
  "AnalysisSchema = ZObject
     [(''model_version'', ZString),
      (''generated_on'', ZString),
      (''summary'', ZOptional ZString),
      (''predictions'', ZArray PredictionSchema),
      (''explainability'', ZOptional top_features_schema)]"

section \<open>The analysis services\<close>

text \<open>
  What the services take from their surroundings: \<open>process.env.GROQ_MODEL\<close>, the
  clock (\<open>new Date().toISOString()\<close>), and two computations of the platform that
  the single-schema service calls. \<open>round_tenths x\<close> is \<open>Math.round(x * 10) / 10\<close>
  as the runtime computes it, the product and the quotient each rounded to the
  nearest double. \<open>format_issues raw\<close> is zod's \<open>parsed.error.format()\<close> for a
  reply \<open>raw\<close> that fails \<open>AnalysisSchema\<close>.
\<close>

record env =
  GROQ_MODEL :: "string option"
  now_iso :: string
  round_tenths :: "rat \<Rightarrow> rat"
  format_issues :: "json \<Rightarrow> json"

text \<open>The optional \<open>options\<close> argument of \<open>analyzeMerged\<close>.\<close>

record options =
  opt_model :: "string option"
  opt_temperature :: "rat option"
  opt_max_tokens :: "rat option"

text \<open>
  The argument of \<open>analyzeWithGroq\<close>. The adapter calls the external model, so inside
  the services it is given by its outcomes: \<open>groq args n\<close> is what the call with
  \<open>args\<close> settles with after \<open>n\<close> earlier calls.
\<close>

record groq_args =
  arg_userId :: string
  arg_mergedData :: json
  arg_healthDatabases :: "string list option"
  arg_model :: "string option"
  arg_temperature :: "rat option"
  arg_max_tokens :: "rat option"

type_synonym adapter = "groq_args \<Rightarrow> nat \<Rightarrow> error_obj + json"

text \<open>\<open>a || d\<close> with a defined default, on values, strings and numbers.\<close>

definition js_or_else :: "json option \<Rightarrow> json \<Rightarrow> json" where
  "js_or_else a d = (case a of Some v \<Rightarrow> if truthy v then v else d | None \<Rightarrow> d)"

definition str_or_else :: "string option \<Rightarrow> string \<Rightarrow> string" where
  "str_or_else a d = (case a of Some s \<Rightarrow> if s \<noteq> [] then s else d | None \<Rightarrow> d)"

definition num_or_else :: "rat option \<Rightarrow> rat \<Rightarrow> rat" where
  "num_or_else a d = (case a of Some n \<Rightarrow> if n \<noteq> 0 then n else d | None \<Rightarrow> d)"

text \<open>\<open>a ?? b\<close>: the right operand only for \<open>undefined\<close> and \<open>null\<close>.\<close>

definition js_nullish :: "json option \<Rightarrow> json option \<Rightarrow> json option" where
  "js_nullish a b = (case a of None \<Rightarrow> b | Some JNull \<Rightarrow> b | Some v \<Rightarrow> Some v)"

text \<open>\<open>obj.k = v\<close>: the key keeps its place, a new key is added last.\<close>

fun set_field :: "string \<Rightarrow> json \<Rightarrow> json \<Rightarrow> json" where
  "set_field k v (JObj fs) = JObj (AList.update k v fs)"
| "set_field k v other = other"

text \<open>The elements of an array value.\<close>

fun elements :: "json \<Rightarrow> json list" where
  "elements (JArr xs) = xs"
| "elements _ = []"

text \<open>A property of an object literal: left out of the document when \<open>undefined\<close>.\<close>

definition field :: "string \<Rightarrow> json option \<Rightarrow> (string \<times> json) list" where
  "field k v = (case v of None \<Rightarrow> [] | Some x \<Rightarrow> [(k, x)])"

subsection \<open>The two-shape service: current shape first, legacy shape upgraded\<close>

text \<open>One synthesized delta of the legacy upgrade.\<close>

definition legacy_delta :: "json \<Rightarrow> json" where
  "legacy_delta p = JObj (
     field ''condition'' (js_get ''condition'' p) @
     [(''baseline_pct'', JNum (- 1)),
      (''projection_pct'',
         (case js_nullish (js_nullish (js_get ''probability_pct'' p) (js_get ''probability'' p))
                 (Some (JNum 0))
          of Some v \<Rightarrow> v | None \<Rightarrow> JNum 0)),
      (''delta_pct'', JNum (- 1))])"

text \<open>
  The conversion of validated legacy data to the current shape. After validation
  \<open>predictions\<close> is an array or absent.
\<close>

definition upgrade_legacy :: "env \<Rightarrow> json \<Rightarrow> json" where
  "upgrade_legacy ev legacyData =
     (let predictions = js_or_else (js_get ''predictions'' legacyData) (JArr []) in
      JObj
       [(''model_version'', js_or_else (js_get ''model_version'' legacyData) (JStr ''unknown-legacy'')),
        (''generated_on'', js_or_else (js_get ''generated_on'' legacyData) (JStr (now_iso ev))),
        (''summary'', js_or_else (js_get ''summary'' legacyData) (JStr [])),
        (''baseline'', JObj [(''predictions'', JArr [])]),
        (''projection'', JObj [(''predictions'', predictions)]),
        (''deltas'', JArr (map legacy_delta (elements predictions))),
        (''explainability'', js_or_else (js_get ''explainability'' legacyData) (JObj []))])"

text \<open>\<open>analysis.projection?.predictions?.length || 0\<close>\<close>

definition projection_count :: "json \<Rightarrow> nat" where
  "projection_count analysis =
     (case js_get ''projection'' analysis of
        None \<Rightarrow> 0
      | Some pr \<Rightarrow> (case js_get ''predictions'' pr of Some (JArr ps) \<Rightarrow> length ps | _ \<Rightarrow> 0))"

text \<open>What \<open>analyzeMerged\<close> does with the adapter's result \<open>raw\<close>.\<close>

definition normalize_v2 ::
  "env \<Rightarrow> string \<Rightarrow> json \<Rightarrow> trace \<Rightarrow> (error_obj option + json) \<times> trace" where
  "normalize_v2 ev uid raw tr =
     (case safeParse AnalysisV2 raw of
        Some analysis \<Rightarrow>
          (Inr analysis,
           tr\<lparr>logs := logs tr @
             [Log Info
                ([(''userId'', JStr uid)] @ field ''model'' (js_get ''model_version'' analysis) @
                 [(''preds'', JNum (of_nat (projection_count analysis)))])
                ''analysis v2 ok'']\<rparr>)
      | None \<Rightarrow>
          (case safeParse LegacyAnalysis raw of
             Some legacyData \<Rightarrow>
               (Inr (upgrade_legacy ev legacyData),
                tr\<lparr>logs := logs tr @
                  [Log Warn [(''userId'', JStr uid)]
                     ''legacy analysis returned, converting to v2 shape'']\<rparr>)
           | None \<Rightarrow>
               (Inl (Some (js_Error ''Invalid analysis returned from model'')),
                tr\<lparr>logs := logs tr @
                  [Log Err [(''raw'', raw)] ''Invalid analysis schema from LLM'']\<rparr>)))"

text \<open>The argument \<open>analyzeMerged\<close> hands to the adapter: the options as they are.\<close>

definition adapter_args_v2 ::
  "string \<Rightarrow> json \<Rightarrow> string list option \<Rightarrow> options option \<Rightarrow> groq_args" where
  "adapter_args_v2 uid payload hdbs opts =
     \<lparr>arg_userId = uid, arg_mergedData = payload,
      arg_healthDatabases = hdbs,
      arg_model = Option.bind opts opt_model,
      arg_temperature = Option.bind opts opt_temperature,
      arg_max_tokens = Option.bind opts opt_max_tokens\<rparr>"

definition analyzeMerged_v2 ::
  "env \<Rightarrow> adapter \<Rightarrow> string \<Rightarrow> json option \<Rightarrow> string list option \<Rightarrow> options option
     \<Rightarrow> (error_obj option + json) \<times> trace" where
  "analyzeMerged_v2 ev groq uid mergedPayload hdbs opts =
     (case mergedPayload of
        None \<Rightarrow> (Inl (Some (js_Error ''mergedPayload is required'')), trace0)
      | Some payload \<Rightarrow>
          if \<not> truthy payload then (Inl (Some (js_Error ''mergedPayload is required'')), trace0)
          else
            (case withRetries_fixed (groq (adapter_args_v2 uid payload hdbs opts)) 3 1000
             of (Inl e, tr) \<Rightarrow> (Inl e, tr)
              | (Inr raw, tr) \<Rightarrow> normalize_v2 ev uid raw tr))"

subsection \<open>\<open>analyzeMerged\<close> of \<open>services/analyzeService.ts\<close>: one schema, rounding\<close>

text \<open>
  \<open>{ ...p, probability_pct: ... }\<close> for a validated prediction: an object whose
  \<open>probability_pct\<close> is a number.
\<close>

definition round_prediction :: "env \<Rightarrow> json \<Rightarrow> json" where
  "round_prediction ev p =
     (case js_get ''probability_pct'' p of
        Some (JNum n) \<Rightarrow> set_field ''probability_pct'' (JNum (round_tenths ev n)) p
      | _ \<Rightarrow> p)"

definition default_model_v1 :: "env \<Rightarrow> string" where
  "default_model_v1 ev = str_or_else (GROQ_MODEL ev) ''llama-3.2-70b-versatile''"

definition normalize_v1 ::
  "env \<Rightarrow> string \<Rightarrow> json \<Rightarrow> trace \<Rightarrow> (error_obj option + json) \<times> trace" where
  "normalize_v1 ev uid rawResult tr =
     (case safeParse AnalysisSchema rawResult of
        None \<Rightarrow>
          (Inl (Some (js_Error ''Invalid analysis result from Groq'')),
           tr\<lparr>logs := logs tr @
             [Log Err [(''rawResult'', rawResult), (''issues'', format_issues ev rawResult)]
                ''Groq returned invalid analysis schema'']\<rparr>)
      | Some parsed \<Rightarrow>
          (let predictions = map (round_prediction ev) (elements (js_or_else (js_get ''predictions'' parsed) (JArr [])));
               a1 = set_field ''predictions'' (JArr predictions) parsed;
               a2 = set_field ''model_version''
                      (js_or_else (js_get ''model_version'' a1) (JStr (default_model_v1 ev))) a1;
               a3 = set_field ''generated_on''
                      (js_or_else (js_get ''generated_on'' a2) (JStr (now_iso ev))) a2
           in (Inr a3,
               tr\<lparr>logs := logs tr @
                 [Log Info
                    ([(''userId'', JStr uid)] @ field ''model'' (js_get ''model_version'' a3) @
                     [(''predictions'', JNum (of_nat (length predictions)))])
                    ''analysis completed with Groq'']\<rparr>)))"

text \<open>The argument handed to the adapter: the options with their defaults.\<close>

definition adapter_args ::
  "string \<Rightarrow> json \<Rightarrow> string list option \<Rightarrow> options option \<Rightarrow> env \<Rightarrow> groq_args" where
  "adapter_args uid payload hdbs opts ev =
     \<lparr>arg_userId = uid, arg_mergedData = payload,
      arg_healthDatabases = hdbs,
      arg_model = Some (str_or_else (Option.bind opts opt_model) (default_model_v1 ev)),
      arg_temperature = Some (num_or_else (Option.bind opts opt_temperature) (7 / 10)),
      arg_max_tokens = Some (num_or_else (Option.bind opts opt_max_tokens) 1200)\<rparr>"

definition analyzeMerged ::
  "env \<Rightarrow> adapter \<Rightarrow> string \<Rightarrow> json option \<Rightarrow> string list option \<Rightarrow> options option
     \<Rightarrow> (error_obj option + json) \<times> trace" where
  "analyzeMerged ev groq uid mergedPayload hdbs opts =
     (case mergedPayload of
        None \<Rightarrow> (Inl (Some (js_Error ''mergedPayload is required'')), trace0)
      | Some payload \<Rightarrow>
          if \<not> truthy payload then (Inl (Some (js_Error ''mergedPayload is required'')), trace0)
          else
            (case withRetries (groq (adapter_args uid payload hdbs opts ev)) 3 500
             of (Inl e, tr) \<Rightarrow> (Inl e, tr)
              | (Inr rawResult, tr) \<Rightarrow> normalize_v1 ev uid rawResult tr))"

section \<open>The adapter: \<open>services/groqAdapter.ts\<close>\<close>

subsection \<open>\<open>sanitizePayload\<close>\<close>

text \<open>\<open>s.slice(-n)\<close>: the last \<open>n\<close> code units, the whole string when it is shorter.\<close>

definition slice_last :: "nat \<Rightarrow> string \<Rightarrow> string" where
  "slice_last n s = drop (length s - n) s"

fun join_comma :: "string list \<Rightarrow> string" where
  "join_comma [] = []"
| "join_comma [x] = x"
| "join_comma (x # y # ys) = x @ '','' @ join_comma (y # ys)"

text \<open>
  \<open>String(v)\<close>, \<open>None\<close> where it throws a TypeError. The digits JavaScript prints
  for a number are the runtime's; \<open>num_str\<close> stands for that conversion. An object
  prints as \<open>[object Object]\<close> through the inherited \<open>toString\<close>; an own key
  \<open>toString\<close> hides that method behind a value that cannot be called, and the
  conversion throws. An array prints its elements joined by commas, \<open>null\<close>
  elements as nothing, and throws when an element does.
\<close>

fun js_String :: "(rat \<Rightarrow> string) \<Rightarrow> json \<Rightarrow> string option" where
  "js_String num_str JNull = Some ''null''"
| "js_String num_str (JBool b) = Some (if b then ''true'' else ''false'')"
| "js_String num_str (JNum n) = Some (num_str n)"
| "js_String num_str (JStr s) = Some s"
| "js_String num_str (JArr xs) =
     map_option join_comma
       (those (map (\<lambda>x. case x of JNull \<Rightarrow> Some [] | _ \<Rightarrow> js_String num_str x) xs))"
| "js_String num_str (JObj fs) =
     (if ''toString'' \<in> fst ` set fs then None else Some ''[object Object]'')"

text \<open>The pseudonym written over a truthy \<open>abha_id\<close>, \<open>None\<close> where \<open>String\<close> throws.\<close>

definition pseudonym :: "(rat \<Rightarrow> string) \<Rightarrow> json \<Rightarrow> json option" where
  "pseudonym num_str v =
     map_option (\<lambda>s. JStr (''user_'' @ slice_last 6 s)) (js_String num_str v)"

definition drop_identifiers :: "(string \<times> json) list \<Rightarrow> (string \<times> json) list" where
  "drop_identifiers fs = AList.delete ''phone'' (AList.delete ''email'' (AList.delete ''name'' fs))"

definition pseudonymize ::
  "(rat \<Rightarrow> string) \<Rightarrow> (string \<times> json) list \<Rightarrow> (string \<times> json) list option" where
  "pseudonymize num_str fs =
     (case map_of fs ''abha_id'' of
        Some v \<Rightarrow>
          if truthy v then map_option (\<lambda>p. AList.update ''abha_id'' p fs) (pseudonym num_str v)
          else Some fs
      | None \<Rightarrow> Some fs)"

definition trim_notes :: "(string \<times> json) list \<Rightarrow> (string \<times> json) list" where
  "trim_notes fs =
     (case map_of fs ''notes'' of
        Some (JStr s) \<Rightarrow> if s \<noteq> [] then AList.update ''notes'' (JStr (take 1000 s)) fs else fs
      | _ \<Rightarrow> fs)"

text \<open>
  \<open>sanitizePayload\<close>. \<open>JSON.parse(JSON.stringify(raw))\<close> copies a JSON value. On
  \<open>null\<close> the first \<open>delete\<close> throws a TypeError, and so does \<open>String\<close> on an
  \<open>abha_id\<close> it cannot convert: the result is \<open>None\<close>. An array or a primitive has
  none of the keys and is returned as it is.
\<close>

definition sanitizePayload :: "(rat \<Rightarrow> string) \<Rightarrow> json \<Rightarrow> json option" where
  "sanitizePayload num_str raw =
     (case raw of
        JNull \<Rightarrow> None
      | JObj fs \<Rightarrow> map_option (\<lambda>gs. JObj (trim_notes gs)) (pseudonymize num_str (drop_identifiers fs))
      | other \<Rightarrow> Some other)"

subsection \<open>Reading the model's output text\<close>

text \<open>
  \<open>outputText.match(/\{[\s\S]*\}/)\<close>: the match starts at the first \<open>{\<close> of the text
  and, the star being greedy, ends at the last \<open>}\<close> after it; there is none when no
  \<open>}\<close> follows the first \<open>{\<close>.
\<close>

definition json_block :: "string \<Rightarrow> string option" where
  "json_block s =
     (let t = dropWhile (\<lambda>c. c \<noteq> CHR ''{'') s in
      if t = [] then None
      else if CHR ''}'' \<in> set (tl t) then Some (rev (dropWhile (\<lambda>c. c \<noteq> CHR ''}'') (rev t)))
      else None)"

text \<open>
  How reading the output fails: with an error object that the adapter throws, or with
  a TypeError that the runtime raises at the assignment of the metadata. The
  \<open>catch\<close> block of the adapter rethrows an error unless its message, in lower case,
  holds one of the phrases it looks for. The messages of the three errors thrown here
  hold none. The message of the TypeError is the runtime's and quotes a primitive
  that was assigned to, so what leaves the adapter then is the TypeError or the error
  that the \<open>catch\<close> block puts in its place.
\<close>

datatype thrown = Thrown error_obj | Raised_TypeError

text \<open>
  \<open>parsed.model_version = parsed.model_version || `${model}-v1`\<close> and the same for
  \<open>generated_on\<close>. The assignment throws a TypeError on \<open>null\<close> and, the module
  being strict code, on a primitive: \<open>None\<close>. On an array it adds properties that are
  no elements.
\<close>

definition with_metadata :: "env \<Rightarrow> string \<Rightarrow> json \<Rightarrow> json" where
  "with_metadata ev model_name parsed =
     (let p1 = set_field ''model_version''
                 (js_or_else (js_get ''model_version'' parsed) (JStr (model_name @ ''-v1''))) parsed
      in set_field ''generated_on''
           (js_or_else (js_get ''generated_on'' p1) (JStr (now_iso ev))) p1)"

definition ensure_metadata :: "env \<Rightarrow> string \<Rightarrow> json \<Rightarrow> json option" where
  "ensure_metadata ev model_name parsed =
     (case parsed of
        JObj fs \<Rightarrow> Some (with_metadata ev model_name parsed)
      | JArr xs \<Rightarrow> Some parsed
      | _ \<Rightarrow> None)"

text \<open>
  From the output text to the adapter's result: \<open>JSON.parse\<close> of the whole text, else
  of the matched block. \<open>JSON_parse\<close> stands for the runtime's parser, \<open>None\<close> where
  it throws.
\<close>

definition parse_model_output ::
  "(string \<Rightarrow> json option) \<Rightarrow> env \<Rightarrow> string \<Rightarrow> string \<Rightarrow> thrown + json" where
  "parse_model_output JSON_parse ev model_name outputText =
     (if outputText = [] then Inl (Thrown (js_Error ''Groq returned no textual output''))
      else
        (case (case JSON_parse outputText of
                 Some parsed \<Rightarrow> Inr parsed
               | None \<Rightarrow>
                   (case json_block outputText of
                      Some block \<Rightarrow>
                        (case JSON_parse block of
                           Some parsed \<Rightarrow> Inr parsed
                         | None \<Rightarrow> Inl (Thrown (js_Error
                             ''Failed to parse JSON from the model output after extracting JSON block'')))
                    | None \<Rightarrow> Inl (Thrown (js_Error
                        ''Failed to parse JSON from model output and no JSON block found''))))
         of Inl e \<Rightarrow> Inl e
          | Inr parsed \<Rightarrow>
              (case ensure_metadata ev model_name parsed of
                 Some v \<Rightarrow> Inr v
               | None \<Rightarrow> Inl Raised_TypeError)))"

section \<open>\<open>analyzeBatch\<close>\<close>

record request =
  req_userId :: string
  req_mergedPayload :: "json option"
  req_healthDatabases :: "string list option"

text \<open>
  The calls of one batch run concurrently and \<open>Promise.allSettled\<close> waits for all of
  them: \<open>settled idx r\<close> is what \<open>analyzeMerged\<close> settles with for the request \<open>r\<close>
  at position \<open>idx\<close> of the input. \<open>None\<close> in the results is \<open>null\<close>.
\<close>

type_synonym settled = "nat \<Rightarrow> request \<Rightarrow> error_obj option + json"

text \<open>The \<open>forEach\<close> over the settled batch, from position \<open>i\<close>.\<close>

fun collect :: "settled \<Rightarrow> nat \<Rightarrow> request list \<Rightarrow> json option list \<times> trace \<Rightarrow> json option list \<times> trace" where
  "collect settled i [] st = st"
| "collect settled i (r # rs) (results, tr) =
     collect settled (i + 1) rs
       (case settled i r of
          Inr v \<Rightarrow> (results @ [Some v], tr\<lparr>calls := calls tr + 1\<rparr>)
        | Inl reason \<Rightarrow>
            (results @ [None],
             tr\<lparr>calls := calls tr + 1,
                logs := logs tr @
                  [Log Err
                     (field ''error'' (map_option err_fields reason) @ [(''userId'', JStr (req_userId r))])
                     ''Batch analysis failed for user'']\<rparr>))"

text \<open>
  The loop over the batches. With \<open>batchSize = 0\<close> and a request left the index
  never advances and the loop does not end: the result is \<open>None\<close>.
\<close>

partial_function (option) analyzeBatch_loop ::
  "settled \<Rightarrow> request list \<Rightarrow> nat \<Rightarrow> nat \<Rightarrow> nat \<Rightarrow> json option list \<times> trace
     \<Rightarrow> (json option list \<times> trace) option"
where
  "analyzeBatch_loop settled analyses batchSize delayMs i st =
     (if i < length analyses then
        analyzeBatch_loop settled analyses batchSize delayMs (i + batchSize)
          (case collect settled i (take batchSize (drop i analyses)) st of
             (results, tr) \<Rightarrow>
               (results,
                if i + batchSize < length analyses then tr\<lparr>delays := delays tr @ [delayMs]\<rparr> else tr))
      else Some st)"

declare analyzeBatch_loop.simps [code]

definition analyzeBatch ::
  "settled \<Rightarrow> request list \<Rightarrow> nat \<Rightarrow> nat \<Rightarrow> (json option list \<times> trace) option" where
  "analyzeBatch settled analyses batchSize delayMs =
     analyzeBatch_loop settled analyses batchSize delayMs 0 ([], trace0)"

section \<open>Notions used to state the properties\<close>

text \<open>
  A document restricted to the keys a schema declares, in the schema's order, with
  every value as it is: nothing is validated and nothing is changed.
\<close>

fun keep_declared :: "zod \<Rightarrow> json \<Rightarrow> json"
  and keep_shape :: "(string \<times> zod) list \<Rightarrow> (string \<times> json) list \<Rightarrow> (string \<times> json) list"
where
  "keep_declared (ZArray s) v = (case v of JArr xs \<Rightarrow> JArr (map (keep_declared s) xs) | _ \<Rightarrow> v)"
| "keep_declared (ZObject shape) v = (case v of JObj fs \<Rightarrow> JObj (keep_shape shape fs) | _ \<Rightarrow> v)"
| "keep_declared (ZOptional s) v = keep_declared s v"
| "keep_declared ZString v = v"
| "keep_declared ZNumber v = v"
| "keep_declared ZNumber_int_nonnegative v = v"
| "keep_declared ZBoolean v = v"
| "keep_declared ZAny v = v"
| "keep_shape [] fs = []"
| "keep_shape ((k, s) # rest) fs =
     (case map_of fs k of
        None \<Rightarrow> keep_shape rest fs
      | Some v \<Rightarrow> (k, keep_declared s v) # keep_shape rest fs)"

text \<open>The predictions of one side (\<open>baseline\<close>, \<open>projection\<close>) of a current-shape document.\<close>

definition predictions_of :: "string \<Rightarrow> json \<Rightarrow> json list option" where
  "predictions_of side doc =
     (case js_get side doc of
        None \<Rightarrow> None
      | Some b \<Rightarrow> (case js_get ''predictions'' b of Some (JArr ps) \<Rightarrow> Some ps | _ \<Rightarrow> None))"

text \<open>The deltas of a current-shape document.\<close>

definition deltas_of :: "json \<Rightarrow> json list option" where
  "deltas_of doc = (case js_get ''deltas'' doc of Some (JArr ds) \<Rightarrow> Some ds | _ \<Rightarrow> None)"

text \<open>
  A number rounded to one decimal place, a half going up: the rounding of
  \<open>Math.round(x * 10) / 10\<close> in exact arithmetic.
\<close>

definition round_1dp :: "rat \<Rightarrow> rat" where
  "round_1dp x = of_int \<lfloor>x * 10 + 1 / 2\<rfloor> / 10"

section \<open>Inputs of the examples\<close>

text \<open>
  An environment for the examples: no \<open>GROQ_MODEL\<close>, a fixed clock, a runtime whose
  rounding is the exact one (as the doubles give it for 40.26, the one number an
  example rounds), and a formatter that reports no issue (no example reads it).
\<close>

definition example_env :: env where
  "example_env = \<lparr>GROQ_MODEL = None, now_iso = ''2025-01-01T00:00:00.000Z'',
                   round_tenths = round_1dp,
                   format_issues = (\<lambda>raw. JObj [(''_errors'', JArr [])])\<rparr>"

text \<open>The merged payload of the end-to-end scenario: no baseline records, a smoker.\<close>

definition example_payload :: json where
  "example_payload =
     JObj [(''baselineRecords'', JArr []), (''lifestyle'', JObj [(''smoker'', JBool True)])]"

text \<open>An upstream error with an HTTP status.\<close>

definition http_error :: "rat \<Rightarrow> error_obj" where
  "http_error n = \<lparr>message = Some ''request failed'', response_status = None,
                    status = Some (JNum n), code = None\<rparr>"

text \<open>
  A network failure as Node reports it: no HTTP response, hence no status, and the
  system's error code in \<open>code\<close>.
\<close>

definition network_error :: error_obj where
  "network_error = \<lparr>message = Some ''socket hang up'', response_status = None,
                     status = None, code = Some (JStr ''ECONNRESET'')\<rparr>"

text \<open>An operation that rejects with \<open>e\<close> on its first \<open>k\<close> invocations and then resolves with \<open>v\<close>.\<close>

definition fails_then :: "nat \<Rightarrow> error_obj \<Rightarrow> 'a \<Rightarrow> nat \<Rightarrow> error_obj + 'a" where
  "fails_then k e v n = (if n < k then Inl e else Inr v)"

text \<open>An operation that always rejects with \<open>e\<close>.\<close>

definition always_fails :: "error_obj \<Rightarrow> nat \<Rightarrow> error_obj + json" where
  "always_fails e n = Inl e"

text \<open>An adapter that resolves with \<open>raw\<close> at once.\<close>

definition replies :: "json \<Rightarrow> adapter" where
  "replies raw args n = Inr raw"

definition example_prediction :: "rat \<Rightarrow> json" where
  "example_prediction pct =
     JObj [(''condition'', JStr ''COPD''), (''years'', JNum 5), (''probability_pct'', JNum pct)]"

text \<open>A current-shape reply: one projection prediction, no baseline.\<close>

definition example_v2_reply :: "rat \<Rightarrow> json" where
  "example_v2_reply pct =
     JObj [(''model_version'', JStr ''m-v1''),
           (''generated_on'', JStr ''2025-01-01T00:00:00.000Z''),
           (''projection'', JObj [(''predictions'', JArr [example_prediction pct])])]"

text \<open>A legacy-shape reply: the same metadata, a flat list with one prediction.\<close>

definition example_legacy_reply :: json where
  "example_legacy_reply =
     JObj [(''model_version'', JStr ''m-v1''),
           (''generated_on'', JStr ''2025-01-01T00:00:00.000Z''),
           (''predictions'', JArr [example_prediction 40])]"

text \<open>The same flat reply with a given probability.\<close>

definition example_flat_reply :: "rat \<Rightarrow> json" where
  "example_flat_reply pct =
     JObj [(''model_version'', JStr ''m-v1''),
           (''generated_on'', JStr ''2025-01-01T00:00:00.000Z''),
           (''predictions'', JArr [example_prediction pct])]"

text \<open>
  A legacy-shape reply whose \<open>explainability\<close> is free text: it fails the current
  shape, which wants an object there.
\<close>

definition example_freeform_legacy_reply :: json where
  "example_freeform_legacy_reply =
     JObj [(''model_version'', JStr ''m-v1''),
           (''generated_on'', JStr ''2025-01-01T00:00:00.000Z''),
           (''predictions'', JArr [example_prediction 40]),
           (''explainability'', JStr ''HbA1c drives the risk'')]"

text \<open>A reply that fits neither shape: its \<open>summary\<close> is \<open>null\<close>, which is no string.\<close>

definition example_invalid_reply :: json where
  "example_invalid_reply =
     JObj [(''model_version'', JStr ''m-v1''),
           (''generated_on'', JStr ''2025-01-01T00:00:00.000Z''),
           (''summary'', JNull),
           (''projection'', JObj [(''predictions'', JArr [example_prediction 40])])]"

text \<open>Another reply that fits neither shape: its \<open>summary\<close> is a number.\<close>

definition example_invalid_reply_2 :: json where
  "example_invalid_reply_2 =
     JObj [(''model_version'', JStr ''m-v1''),
           (''generated_on'', JStr ''2025-01-01T00:00:00.000Z''),
           (''summary'', JNum 7)]"

text \<open>
  A merged payload as the route builds it, with an empty \<open>abha_id\<close>: the patient's
  name sits inside a record.
\<close>

definition example_merged_records :: json where
  "example_merged_records =
     JObj [(''abha_id'', JStr []),
           (''baselineRecords'',
              JArr [JObj [(''source'', JStr ''upload''),
                          (''payload'', JObj [(''name'', JStr ''Asha Rao''), (''bmi'', JNum 31)])]]),
           (''lifestyle'', JObj [(''smoker'', JBool True)])]"

text \<open>A number conversion for the examples, none of which converts a number.\<close>

definition example_num_str :: "rat \<Rightarrow> string" where
  "example_num_str n = []"

text \<open>
  A parser for the examples. It agrees with \<open>JSON.parse\<close> on the texts it is applied
  to there: the object text parses, the texts with prose around it are no JSON.
\<close>

definition example_object_text :: string where
  "example_object_text = ''{\"risk\":40}''"

definition example_JSON_parse :: "string \<Rightarrow> json option" where
  "example_JSON_parse s = (if s = example_object_text then Some (JObj [(''risk'', JNum 40)]) else None)"

text \<open>A payload with every identifier the sanitizer looks for.\<close>

definition example_patient :: json where
  "example_patient =
     JObj [(''name'', JStr ''Asha Rao''),
           (''email'', JStr ''asha@example.org''),
           (''phone'', JStr ''5550100''),
           (''abha_id'', JStr ''12345678901234''),
           (''hba1c'', JNum 7),
           (''notes'', JStr ''fasting sample'')]"

definition example_patient_sanitized :: json where
  "example_patient_sanitized =
     JObj [(''abha_id'', JStr ''user_901234''),
           (''hba1c'', JNum 7),
           (''notes'', JStr ''fasting sample'')]"

text \<open>Three requests, of which the second fails.\<close>

definition example_requests :: "request list" where
  "example_requests =
     map (\<lambda>u. \<lparr>req_userId = u, req_mergedPayload = Some example_payload, req_healthDatabases = None\<rparr>)
       [''u1'', ''u2'', ''u3'']"

definition example_settled :: settled where
  "example_settled i r =
     (if i = 1 then Inl (Some (js_Error ''Invalid analysis returned from model''))
      else Inr (example_v2_reply 40))"

section \<open>The retry wrappers: properties\<close>

declare withRetries_loop.simps [simp del]
declare withRetries_fixed_loop.simps [simp del]

text \<open>
  An error with a truthy numeric status below 500 other than 429, and no rate-limit
  message, is not retried by the classifying wrapper.
\<close>

lemma non_transientI:
  assumes "status_of e = Some (JNum n)" "n \<noteq> 0" "n \<noteq> 429" "n < 500"
    and "\<And>m. message e = Some m \<Longrightarrow> \<not> js_includes m ''rate limit''"
  shows "\<not> transient e"
  using assms by (auto simp: transient_def isRateLimit_def is_5xx_def split: option.splits)

text \<open>
  The errors the wrapper retries include those with a status of 500 or more, with the
  status 429, and with none of the three properties the status is read from.
\<close>

lemma transient_statuses:
  "status_of e = Some (JNum n) \<Longrightarrow> 500 \<le> n \<or> n = 429 \<Longrightarrow> transient e"
  "status_of e = None \<Longrightarrow> transient e"
  by (auto simp: transient_def isRateLimit_def is_5xx_def)

text \<open>
  The loop from attempt \<open>j\<close> on, when the invocations before the \<open>k\<close>-th reject
  with transient errors and the \<open>k\<close>-th resolves.
\<close>

lemma withRetries_loop_succeeds:
  assumes "k < retries"
    and "\<And>i. i < k \<Longrightarrow> \<exists>e. fn i = Inl e \<and> transient e"
    and "fn k = Inr v"
    and "j \<le> k" and "calls tr = j"
  shows "\<exists>tr'. withRetries_loop fn retries base j lastErr tr = (Inr v, tr')
           \<and> calls tr' = k + 1
           \<and> delays tr' = delays tr @ map (\<lambda>i. base * 2 ^ i) [j..<k]"
  using assms(4,5)
proof (induction "k - j" arbitrary: j lastErr tr)
  case 0
  then have "j = k" by simp
  with assms(1,3) 0 show ?case
    by (subst withRetries_loop.simps) simp
next
  case (Suc d)
  then have lt: "j < k" by simp
  then obtain e where e: "fn j = Inl e" "transient e" using assms(2) by blast
  let ?tr = "tr\<lparr>calls := calls tr + 1,
                      delays := delays tr @ [base * 2 ^ j],
                      logs := logs tr @
                        [Log Warn [(''err'', err_fields e), (''attempt'', JNum (of_nat (j + 1))),
                                   (''delay'', JNum (of_nat (base * 2 ^ j)))]
                           ''Transient error from analyzeWithGroq - retrying'']\<rparr>"
  have "d = k - (j + 1)" using Suc by simp
  moreover have "j + 1 \<le> k" using lt by simp
  moreover have "calls ?tr = j + 1" using Suc by simp
  ultimately obtain tr' where IH:
    "withRetries_loop fn retries base (j + 1) (Some e) ?tr = (Inr v, tr')"
    "calls tr' = k + 1"
    "delays tr' = delays ?tr @ map (\<lambda>i. base * 2 ^ i) [j + 1..<k]"
    using Suc.hyps(1)[of "j + 1" ?tr "Some e"] by blast
  have step: "withRetries_loop fn retries base j lastErr tr
        = withRetries_loop fn retries base (j + 1) (Some e) ?tr"
    using lt assms(1) e Suc.prems
    by (subst withRetries_loop.simps) (simp add: Let_def)
  have "[j..<k] = j # [j + 1..<k]" using lt by (simp add: upt_conv_Cons)
  with IH step show ?case by simp
qed

lemma withRetries_fixed_first_reply:
  "fn 0 = Inr v \<Longrightarrow> withRetries_fixed fn 3 1000 = (Inr v, \<lparr>calls = 1, delays = [], logs = []\<rparr>)"
  by (simp add: withRetries_fixed_def trace0_def withRetries_fixed_loop.simps[of fn 3 1000 0])

text \<open>
  C3, as amended. In the classifying wrapper (\<open>withRetries\<close> of
  \<open>services/analyzeService.ts\<close>), with at least one attempt allowed: when the
  operation rejects with an error whose status is a number other than 0 and 429 and
  below 500, and whose message does not contain \<open>rate limit\<close>, the operation is
  invoked exactly once, nothing is slept or logged, and that error is thrown.
\<close>

theorem withRetries_non_transient_once:
  assumes "0 < retries"
    and "fn 0 = Inl e"
    and "status_of e = Some (JNum n)" and "n \<noteq> 0" and "n \<noteq> 429" and "n < 500"
    and "\<forall>m. message e = Some m \<longrightarrow> \<not> js_includes m ''rate limit''"
  shows "withRetries fn retries baseDelayMs = (Inl (Some e), \<lparr>calls = 1, delays = [], logs = []\<rparr>)"
proof -
  have "\<not> transient e"
    using assms(3-7) by (intro non_transientI[of e n]) auto
  then show ?thesis
    using assms(1,2)
    by (simp add: withRetries_def trace0_def withRetries_loop.simps[of fn retries baseDelayMs 0])
qed

text \<open>The theorem at an operation that always rejects with HTTP 400.\<close>

theorem withRetries_non_transient_once_witness:
  "withRetries (always_fails (http_error 400)) 3 500
     = (Inl (Some (http_error 400)), \<lparr>calls = 1, delays = [], logs = []\<rparr>)"
proof -
  have inc: "\<not> js_includes ''request failed'' ''rate limit''"
    by simp
  show ?thesis
    using withRetries_non_transient_once[of 3 "always_fails (http_error 400)" "http_error 400" 400 500] inc
    by (simp add: always_fails_def http_error_def status_of_def js_or_def)
qed

text \<open>
  C3 as stated fails for the wrapper of the two-shape service, which does not classify:
  the same HTTP 400 error is retried until the attempts are used up, with three
  invocations and two sleeps.
\<close>

theorem withRetries_fixed_retries_non_transient:
  "\<not> transient (http_error 400)
   \<and> fst (withRetries_fixed (always_fails (http_error 400)) 3 1000) = Inl (Some (http_error 400))
   \<and> calls (snd (withRetries_fixed (always_fails (http_error 400)) 3 1000)) = 3
   \<and> delays (snd (withRetries_fixed (always_fails (http_error 400)) 3 1000)) = [1000, 1000]"
  by (simp add: withRetries_fixed_def trace0_def always_fails_def http_error_def
      withRetries_fixed_loop.simps[of _ _ _ 0] withRetries_fixed_loop.simps[of _ _ _ 1]
      withRetries_fixed_loop.simps[of _ _ _ 2] withRetries_fixed_loop.simps[of _ _ _ 3]
      withRetries_fixed_loop.simps[of _ _ _ "Suc _"]
      transient_def isRateLimit_def is_5xx_def status_of_def js_or_def)

text \<open>
  For every \<open>k\<close> below the number of attempts: when the operation rejects on each of
  its first \<open>k\<close> invocations with an error that the wrapper retries, and resolves with
  \<open>v\<close> on the next, \<open>withRetries\<close> returns \<open>v\<close>, has invoked the operation
  \<open>k + 1\<close> times and has slept \<open>k\<close> times, for \<open>baseDelayMs * 2 ^ i\<close>
  milliseconds with \<open>i = 0, ..., k - 1\<close> in this order.
\<close>

lemma withRetries_retried_then_success:
  assumes "k < retries"
    and "\<forall>i<k. \<exists>e. fn i = Inl e \<and> transient e"
    and "fn k = Inr v"
  shows "fst (withRetries fn retries baseDelayMs) = Inr v
       \<and> calls (snd (withRetries fn retries baseDelayMs)) = k + 1
       \<and> delays (snd (withRetries fn retries baseDelayMs)) = map (\<lambda>i. baseDelayMs * 2 ^ i) [0..<k]"
proof -
  obtain tr' where "withRetries_loop fn retries baseDelayMs 0 None trace0 = (Inr v, tr')"
    "calls tr' = k + 1"
    "delays tr' = delays trace0 @ map (\<lambda>i. baseDelayMs * 2 ^ i) [0..<k]"
    using withRetries_loop_succeeds[of k retries fn v 0 trace0 baseDelayMs None] assms
    by (auto simp: trace0_def)
  then show ?thesis by (simp add: withRetries_def trace0_def)
qed

text \<open>An operation that answers HTTP 503 twice and then resolves.\<close>

lemma withRetries_retried_then_success_example:
  "fst (withRetries (fails_then 2 (http_error 503) (JStr ''ok'')) 3 500) = Inr (JStr ''ok'')
   \<and> calls (snd (withRetries (fails_then 2 (http_error 503) (JStr ''ok'')) 3 500)) = 3
   \<and> delays (snd (withRetries (fails_then 2 (http_error 503) (JStr ''ok'')) 3 500)) = [500, 1000]"
proof -
  have tr: "transient (http_error 503)"
    by (simp add: transient_def is_5xx_def status_of_def js_or_def http_error_def)
  have "[0..<2] = [0, Suc 0]"
    by (simp add: upt_conv_Cons)
  then show ?thesis
    using withRetries_retried_then_success[of 2 3 "fails_then 2 (http_error 503) (JStr ''ok'')" "JStr ''ok''" 500] tr
    by (simp add: fails_then_def)
qed

text \<open>
  A network failure without any \<open>code\<close> has no status for the wrapper and is retried:
  one failure, one sleep of \<open>baseDelayMs\<close>, then the value.
\<close>

lemma withRetries_retries_error_without_code:
  "withRetries (fails_then 1 (network_error\<lparr>code := None\<rparr>) (JStr ''ok'')) 3 500
   = (Inr (JStr ''ok''),
      \<lparr>calls = 2, delays = [500],
       logs = [Log Warn [(''err'', err_fields (network_error\<lparr>code := None\<rparr>)),
                         (''attempt'', JNum 1), (''delay'', JNum 500)]
                 ''Transient error from analyzeWithGroq - retrying'']\<rparr>)"
  by (simp add: withRetries_def trace0_def fails_then_def network_error_def
      withRetries_loop.simps[of _ _ _ 0] withRetries_loop.simps[of _ _ _ "Suc 0"]
      transient_def isRateLimit_def is_5xx_def status_of_def js_or_def)

text \<open>
  C4. The claim: for every \<open>k\<close> below the number of attempts, an operation that fails
  with a transient error exactly \<open>k\<close> times and then succeeds has its value returned
  by \<open>withRetries\<close>, after \<open>k + 1\<close> invocations and \<open>k\<close> sleeps of
  \<open>baseDelayMs * 2 ^ i\<close> milliseconds. The wrapper means to retry on a rate limit, a
  5xx status or a network issue, and takes an error without status for the last. It
  reads the status as \<open>err.response.status || err.status || err.code\<close>, so the system
  code that a network failure carries counts as a status. With \<open>k = 1\<close>: an operation
  that fails once with a connection reset (no HTTP status, \<open>code\<close> \<open>ECONNRESET\<close>)
  and would then resolve is invoked once, nothing is slept, and the error is thrown,
  where the claim has the value returned after two invocations and one sleep of 500
  milliseconds.
\<close>

theorem withRetries_rethrows_network_error:
  "response_status network_error = None \<and> status network_error = None
   \<and> fails_then 1 network_error (JStr ''ok'') 0 = Inl network_error
   \<and> fails_then 1 network_error (JStr ''ok'') 1 = Inr (JStr ''ok'')
   \<and> withRetries (fails_then 1 network_error (JStr ''ok'')) 3 500
       = (Inl (Some network_error), \<lparr>calls = 1, delays = [], logs = []\<rparr>)"
  by (simp add: withRetries_def trace0_def fails_then_def network_error_def
      withRetries_loop.simps[of _ _ _ 0]
      transient_def isRateLimit_def is_5xx_def status_of_def js_or_def)

section \<open>The analysis services: properties\<close>

lemma analyzeMerged_v2_first_reply:
  "truthy payload \<Longrightarrow>
   analyzeMerged_v2 ev (replies raw) uid (Some payload) hdbs opts
     = normalize_v2 ev uid raw \<lparr>calls = 1, delays = [], logs = []\<rparr>"
  by (simp add: analyzeMerged_v2_def withRetries_fixed_first_reply replies_def)

lemma truthy_example_payload: "truthy example_payload"
  by (simp add: example_payload_def)

subsection \<open>Validation keeps what it accepts\<close>

lemma those_map_Some:
  "those (map f xs) = Some ys \<Longrightarrow> (\<And>x y. x \<in> set xs \<Longrightarrow> f x = Some y \<Longrightarrow> y = g x) \<Longrightarrow> ys = map g xs"
proof (induction xs arbitrary: ys)
  case Nil
  then show ?case by simp
next
  case (Cons x xs)
  then show ?case
    by (auto split: option.splits)
qed

text \<open>Validated data is the input restricted to the declared keys: no value is changed.\<close>

lemma safeParse_keep_declared:
  "safeParse s v = Some d \<Longrightarrow> d = keep_declared s v"
  "parse_shape shape fs = Some gs \<Longrightarrow> gs = keep_shape shape fs"
proof (induction s v and shape fs arbitrary: d and gs rule: safeParse_parse_shape.induct)
  case (6 s v)
  then show ?case
    by (cases v) (auto dest!: those_map_Some[where g = "keep_declared s"])
next
  case (7 shape v)
  then show ?case by (cases v) auto
next
  case (10 k s rest fs)
  then show ?case
    by (auto split: option.splits if_splits)
qed (auto split: json.splits if_splits)

lemma safeParse_example_v2: "safeParse AnalysisV2 (example_v2_reply pct) = Some (example_v2_reply pct)"
  by (simp add: AnalysisV2_def example_v2_reply_def example_prediction_def Pred_def)

subsection \<open>The legacy upgrade\<close>

text \<open>
  What the upgrade makes of validated legacy data with \<open>N\<close> predictions: they become
  the projection, the baseline is empty, and there are \<open>N\<close> deltas, each with
  \<open>baseline_pct\<close> and \<open>delta_pct\<close> equal to \<open>-1\<close>.
\<close>

lemma legacy_delta_sentinels:
  "js_get ''baseline_pct'' (legacy_delta p) = Some (JNum (- 1))
   \<and> js_get ''delta_pct'' (legacy_delta p) = Some (JNum (- 1))"
  by (simp add: legacy_delta_def field_def split: option.splits)

lemma upgrade_legacy_shape:
  assumes "js_get ''predictions'' legacyData = Some (JArr ps)"
  shows "predictions_of ''projection'' (upgrade_legacy ev legacyData) = Some ps"
    and "predictions_of ''baseline'' (upgrade_legacy ev legacyData) = Some []"
    and "deltas_of (upgrade_legacy ev legacyData) = Some (map legacy_delta ps)"
  using assms
  by (simp_all add: upgrade_legacy_def predictions_of_def deltas_of_def js_or_else_def Let_def)

text \<open>The upgrade is reached by a reply that fails the current shape and fits the legacy one.\<close>

lemma normalize_v2_legacy:
  assumes "safeParse AnalysisV2 raw = None" and "safeParse LegacyAnalysis raw = Some legacyData"
  shows "fst (normalize_v2 ev uid raw tr) = Inr (upgrade_legacy ev legacyData)"
  using assms by (simp add: normalize_v2_def)

lemma normalize_v2_freeform_legacy_example:
  "\<exists>out. fst (normalize_v2 example_env ''u1'' example_freeform_legacy_reply tr) = Inr out
     \<and> predictions_of ''projection'' out = Some [example_prediction 40]
     \<and> predictions_of ''baseline'' out = Some []
     \<and> deltas_of out = Some [legacy_delta (example_prediction 40)]"
proof -
  have v2: "safeParse AnalysisV2 example_freeform_legacy_reply = None"
    by (simp add: AnalysisV2_def example_freeform_legacy_reply_def top_features_schema_def)
  have lg: "safeParse LegacyAnalysis example_freeform_legacy_reply = Some example_freeform_legacy_reply"
    by (simp add: LegacyAnalysis_def example_freeform_legacy_reply_def example_prediction_def Pred_def)
  have p: "js_get ''predictions'' example_freeform_legacy_reply = Some (JArr [example_prediction 40])"
    by (simp add: example_freeform_legacy_reply_def)
  show ?thesis
    using normalize_v2_legacy[OF v2 lg] upgrade_legacy_shape[OF p] by simp
qed

text \<open>
  A reply with string metadata and none of the other declared keys of the current
  shape passes its validation, whatever else it holds: what comes back is the metadata.
\<close>

lemma metadata_reply_is_current_shape:
  assumes "map_of fs ''model_version'' = Some (JStr mv)" and "map_of fs ''generated_on'' = Some (JStr g)"
    and "map_of fs ''summary'' = None" and "map_of fs ''baseline'' = None"
    and "map_of fs ''projection'' = None" and "map_of fs ''deltas'' = None"
    and "map_of fs ''explainability'' = None"
  shows "fst (normalize_v2 ev uid (JObj fs) tr)
           = Inr (JObj [(''model_version'', JStr mv), (''generated_on'', JStr g)])"
  using assms by (simp add: normalize_v2_def AnalysisV2_def)

text \<open>
  C1. A legacy-shape reply with \<open>N\<close> predictions is to come back upgraded, with \<open>N\<close>
  projection predictions and \<open>N\<close> deltas. The reply below is in the legacy shape with
  one prediction and carries its metadata, as every reply of the adapter does. It
  passes the validation of the current shape, whose own fields are all optional and
  which drops the undeclared \<open>predictions\<close>; the upgrade is never reached and the
  service returns the metadata alone.
\<close>

theorem analyzeMerged_v2_drops_legacy_predictions:
  "safeParse LegacyAnalysis example_legacy_reply = Some example_legacy_reply
 \<and> js_get ''predictions'' example_legacy_reply = Some (JArr [example_prediction 40])
 \<and> fst (analyzeMerged_v2 example_env (replies example_legacy_reply) ''u1'' (Some example_payload) None None)
     = Inr (JObj [(''model_version'', JStr ''m-v1''), (''generated_on'', JStr ''2025-01-01T00:00:00.000Z'')])"
  using truthy_example_payload
  by (simp add: analyzeMerged_v2_first_reply normalize_v2_def AnalysisV2_def LegacyAnalysis_def
      example_legacy_reply_def example_prediction_def Pred_def)

text \<open>
  C2, as amended. When the adapter's reply fits neither the current nor the legacy
  shape, \<open>analyzeMerged\<close> returns no analysis: it writes the raw reply to the log at
  error level and throws a plain \<open>Error\<close> with the message
  \<open>Invalid analysis returned from model\<close>. The raw reply is in the log entry, not in
  the error.
\<close>

theorem analyzeMerged_v2_invalid_output:
  assumes "truthy payload"
    and "withRetries_fixed (groq (adapter_args_v2 uid payload hdbs opts)) 3 1000 = (Inr raw, tr)"
    and "safeParse AnalysisV2 raw = None"
    and "safeParse LegacyAnalysis raw = None"
  shows "analyzeMerged_v2 ev groq uid (Some payload) hdbs opts
           = (Inl (Some (js_Error ''Invalid analysis returned from model'')),
              tr\<lparr>logs := logs tr @ [Log Err [(''raw'', raw)] ''Invalid analysis schema from LLM'']\<rparr>)"
  using assms by (simp add: analyzeMerged_v2_def normalize_v2_def)

text \<open>The theorem at a reply whose \<open>summary\<close> is \<open>null\<close>.\<close>

theorem analyzeMerged_v2_invalid_output_witness:
  "analyzeMerged_v2 example_env (replies example_invalid_reply) ''u1'' (Some example_payload) None None
     = (Inl (Some (js_Error ''Invalid analysis returned from model'')),
        \<lparr>calls = 1, delays = [],
         logs = [Log Err [(''raw'', example_invalid_reply)] ''Invalid analysis schema from LLM'']\<rparr>)"
proof -
  have r: "withRetries_fixed (replies example_invalid_reply (adapter_args_v2 ''u1'' example_payload None None)) 3 1000
             = (Inr example_invalid_reply, \<lparr>calls = 1, delays = [], logs = []\<rparr>)"
    by (rule withRetries_fixed_first_reply) (simp add: replies_def)
  have v2: "safeParse AnalysisV2 example_invalid_reply = None"
    by (simp add: AnalysisV2_def example_invalid_reply_def)
  have lg: "safeParse LegacyAnalysis example_invalid_reply = None"
    by (simp add: LegacyAnalysis_def example_invalid_reply_def)
  show ?thesis
    using analyzeMerged_v2_invalid_output[where payload = example_payload
        and groq = "replies example_invalid_reply" and uid = "''u1''" and hdbs = None and opts = None
        and raw = example_invalid_reply and tr = "\<lparr>calls = 1, delays = [], logs = []\<rparr>"
        and ev = example_env, OF truthy_example_payload r v2 lg]
    by simp
qed

text \<open>
  C2 as stated fails: the error carries no reply. Two different replies that fit neither
  shape are answered with the same error, which has a message and nothing else.
\<close>

theorem analyzeMerged_v2_invalid_output_same_error:
  "example_invalid_reply \<noteq> example_invalid_reply_2
   \<and> fst (analyzeMerged_v2 example_env (replies example_invalid_reply) ''u1'' (Some example_payload) None None)
       = Inl (Some \<lparr>message = Some ''Invalid analysis returned from model'',
                       response_status = None, status = None, code = None\<rparr>)
   \<and> fst (analyzeMerged_v2 example_env (replies example_invalid_reply_2) ''u1'' (Some example_payload) None None)
       = Inl (Some \<lparr>message = Some ''Invalid analysis returned from model'',
                       response_status = None, status = None, code = None\<rparr>)"
proof -
  have d: "example_invalid_reply \<noteq> example_invalid_reply_2"
    by (simp add: example_invalid_reply_def example_invalid_reply_2_def)
  have a: "fst (normalize_v2 example_env ''u1'' example_invalid_reply \<lparr>calls = 1, delays = [], logs = []\<rparr>)
         = Inl (Some (js_Error ''Invalid analysis returned from model''))"
    by (simp add: normalize_v2_def AnalysisV2_def LegacyAnalysis_def example_invalid_reply_def)
  have b: "fst (normalize_v2 example_env ''u1'' example_invalid_reply_2 \<lparr>calls = 1, delays = [], logs = []\<rparr>)
         = Inl (Some (js_Error ''Invalid analysis returned from model''))"
    by (simp add: normalize_v2_def AnalysisV2_def LegacyAnalysis_def example_invalid_reply_2_def)
  show ?thesis
    using d a b by (simp add: analyzeMerged_v2_first_reply[OF truthy_example_payload] js_Error_def)
qed

text \<open>
  C8, as amended. When the adapter's reply validates against the current shape,
  \<open>analyzeMerged\<close> returns that document restricted to the declared keys, every value
  as received: no \<open>probability_pct\<close> is rounded.
\<close>

theorem analyzeMerged_v2_current_shape_unchanged:
  assumes "truthy payload"
    and "withRetries_fixed (groq (adapter_args_v2 uid payload hdbs opts)) 3 1000 = (Inr raw, tr)"
    and "safeParse AnalysisV2 raw = Some d"
  shows "fst (analyzeMerged_v2 ev groq uid (Some payload) hdbs opts) = Inr (keep_declared AnalysisV2 raw)"
  using assms safeParse_keep_declared(1)[OF assms(3)]
  by (simp add: analyzeMerged_v2_def normalize_v2_def)

text \<open>
  The theorem at the end-to-end scenario: one projection prediction at 40 percent, no
  baseline. The document comes back as it is.
\<close>

theorem analyzeMerged_v2_current_shape_unchanged_witness:
  "fst (analyzeMerged_v2 example_env (replies (example_v2_reply 40)) ''u1'' (Some example_payload) None None)
     = Inr (example_v2_reply 40)"
proof -
  have r: "withRetries_fixed (replies (example_v2_reply 40) (adapter_args_v2 ''u1'' example_payload None None)) 3 1000
             = (Inr (example_v2_reply 40), \<lparr>calls = 1, delays = [], logs = []\<rparr>)"
    by (rule withRetries_fixed_first_reply) (simp add: replies_def)
  have k: "keep_declared AnalysisV2 (example_v2_reply 40) = example_v2_reply 40"
    using safeParse_keep_declared(1)[OF safeParse_example_v2] by simp
  show ?thesis
    using analyzeMerged_v2_current_shape_unchanged[where payload = example_payload
        and groq = "replies (example_v2_reply 40)" and uid = "''u1''" and hdbs = None and opts = None
        and raw = "example_v2_reply 40" and tr = "\<lparr>calls = 1, delays = [], logs = []\<rparr>"
        and ev = example_env and d = "example_v2_reply 40", OF truthy_example_payload r safeParse_example_v2]
    by (simp add: k)
qed

text \<open>
  C8 as stated fails: a probability of 40.26 comes back as 40.26, where rounding to
  one decimal place gives 40.3.
\<close>

theorem analyzeMerged_v2_does_not_round:
  "fst (analyzeMerged_v2 example_env (replies (example_v2_reply (4026 / 100))) ''u1'' (Some example_payload) None None)
     = Inr (example_v2_reply (4026 / 100))
   \<and> round_1dp (4026 / 100) = 403 / 10
   \<and> example_v2_reply (4026 / 100) \<noteq> example_v2_reply (round_1dp (4026 / 100))"
proof -
  have r: "round_1dp (4026 / 100) = 403 / 10"
    by (simp add: round_1dp_def floor_eq_iff)
  have a: "fst (analyzeMerged_v2 example_env (replies (example_v2_reply (4026 / 100))) ''u1''
                  (Some example_payload) None None) = Inr (example_v2_reply (4026 / 100))"
    by (simp only: analyzeMerged_v2_first_reply[OF truthy_example_payload] normalize_v2_def
        safeParse_example_v2 option.case fst_conv)
  have n: "example_v2_reply (4026 / 100) \<noteq> example_v2_reply (403 / 10)"
    by (simp add: example_v2_reply_def example_prediction_def)
  have n': "example_v2_reply (4026 / 100) \<noteq> example_v2_reply (round_1dp (4026 / 100))"
    unfolding r by (rule n)
  from a r n' show ?thesis
    by blast
qed

text \<open>
  C9. Without a merged payload (\<open>undefined\<close>, \<open>null\<close> or another falsy value) both
  versions of \<open>analyzeMerged\<close> throw \<open>mergedPayload is required\<close> at once: the
  adapter is not invoked, nothing is retried and nothing is slept.
\<close>

theorem analyzeMerged_missing_payload:
  assumes "\<not> truthy_opt mergedPayload"
  shows "analyzeMerged ev groq uid mergedPayload hdbs opts
           = (Inl (Some (js_Error ''mergedPayload is required'')), \<lparr>calls = 0, delays = [], logs = []\<rparr>)
       \<and> analyzeMerged_v2 ev groq uid mergedPayload hdbs opts
           = (Inl (Some (js_Error ''mergedPayload is required'')), \<lparr>calls = 0, delays = [], logs = []\<rparr>)"
  using assms
  by (cases mergedPayload) (simp_all add: analyzeMerged_def analyzeMerged_v2_def trace0_def)

text \<open>The theorem at an undefined payload.\<close>

theorem analyzeMerged_missing_payload_witness:
  "analyzeMerged example_env (replies (example_v2_reply 40)) ''u1'' None None None
           = (Inl (Some (js_Error ''mergedPayload is required'')), \<lparr>calls = 0, delays = [], logs = []\<rparr>)
   \<and> analyzeMerged_v2 example_env (replies (example_v2_reply 40)) ''u1'' None None None
           = (Inl (Some (js_Error ''mergedPayload is required'')), \<lparr>calls = 0, delays = [], logs = []\<rparr>)"
  using analyzeMerged_missing_payload[of None example_env "replies (example_v2_reply 40)" "''u1''" None None]
  by simp

subsection \<open>The single-schema service\<close>

lemma withRetries_first_reply:
  "fn 0 = Inr v \<Longrightarrow> withRetries fn 3 500 = (Inr v, \<lparr>calls = 1, delays = [], logs = []\<rparr>)"
  by (simp add: withRetries_def trace0_def withRetries_loop.simps[of fn 3 500 0])

lemma analyzeMerged_first_reply:
  "truthy payload \<Longrightarrow>
   analyzeMerged ev (replies raw) uid (Some payload) hdbs opts
     = normalize_v1 ev uid raw \<lparr>calls = 1, delays = [], logs = []\<rparr>"
  by (simp add: analyzeMerged_def withRetries_first_reply replies_def)

text \<open>
  A reply that fails \<open>AnalysisSchema\<close> is logged raw, with the issues zod reports,
  and answered with an error.
\<close>

lemma normalize_v1_invalid:
  "safeParse AnalysisSchema rawResult = None \<Longrightarrow>
   normalize_v1 ev uid rawResult tr
     = (Inl (Some (js_Error ''Invalid analysis result from Groq'')),
        tr\<lparr>logs := logs tr @
          [Log Err [(''rawResult'', rawResult), (''issues'', format_issues ev rawResult)]
             ''Groq returned invalid analysis schema'']\<rparr>)"
  by (simp add: normalize_v1_def)

text \<open>
  This service does round: on a runtime that takes 40.26 to 40.3, as exact rounding
  does, a flat reply with a probability of 40.26 comes back with 40.3.
\<close>

lemma round_1dp_example: "round_1dp (4026 / 100) = 403 / 10"
  by (simp add: round_1dp_def floor_eq_iff)

lemma analyzeMerged_rounds_example:
  assumes "round_tenths ev (4026 / 100) = 403 / 10"
  shows "fst (analyzeMerged ev (replies (example_flat_reply (4026 / 100))) ''u1''
                (Some example_payload) None None)
           = Inr (example_flat_reply (403 / 10))"
proof -
  have p: "safeParse AnalysisSchema (example_flat_reply (4026 / 100)) = Some (example_flat_reply (4026 / 100))"
    by (simp add: AnalysisSchema_def PredictionSchema_def example_flat_reply_def example_prediction_def)
  have r: "round_prediction ev (example_prediction (4026 / 100)) = example_prediction (403 / 10)"
    using assms by (simp add: round_prediction_def example_prediction_def)
  have e: "elements (js_or_else (js_get ''predictions'' (example_flat_reply (4026 / 100))) (JArr []))
             = [example_prediction (4026 / 100)]"
    by (simp add: example_flat_reply_def js_or_else_def)
  have "fst (normalize_v1 ev ''u1'' (example_flat_reply (4026 / 100))
               \<lparr>calls = 1, delays = [], logs = []\<rparr>) = Inr (example_flat_reply (403 / 10))"
    unfolding normalize_v1_def p option.case Let_def e list.map r
    by (simp add: example_flat_reply_def js_or_else_def)
  then show ?thesis
    by (simp only: analyzeMerged_first_reply[OF truthy_example_payload])
qed

lemma analyzeMerged_rounds_example_env:
  "fst (analyzeMerged example_env (replies (example_flat_reply (4026 / 100))) ''u1''
          (Some example_payload) None None)
     = Inr (example_flat_reply (403 / 10))"
proof (rule analyzeMerged_rounds_example)
  have "round_tenths example_env = round_1dp"
    by (simp add: example_env_def)
  then show "round_tenths example_env (4026 / 100) = 403 / 10"
    by (simp only: round_1dp_example)
qed

section \<open>The sanitizer: properties\<close>

lemma map_of_in_keys: "map_of fs k = Some v \<Longrightarrow> k \<in> fst ` set fs"
  by (induction fs) (auto split: if_splits)

lemma keys_drop_identifiers:
  "fst ` set (drop_identifiers fs) = fst ` set fs - {''name'', ''email'', ''phone''}"
proof -
  have "set (map fst (drop_identifiers fs)) = set (map fst fs) - {''name'', ''email'', ''phone''}"
    unfolding drop_identifiers_def AList.delete_keys set_removeAll by blast
  then show ?thesis by simp
qed

lemma map_of_drop_identifiers:
  "map_of (drop_identifiers fs) k = (if k = ''name'' \<or> k = ''email'' \<or> k = ''phone'' then None else map_of fs k)"
  by (simp add: drop_identifiers_def AList.delete_conv')

lemma drop_identifiers_id:
  "''name'' \<notin> fst ` set fs \<Longrightarrow> ''email'' \<notin> fst ` set fs \<Longrightarrow> ''phone'' \<notin> fst ` set fs
   \<Longrightarrow> drop_identifiers fs = fs"
  by (simp add: drop_identifiers_def)

lemma keys_update_present:
  "map_of fs k = Some v \<Longrightarrow> fst ` set (AList.update k w fs) = fst ` set fs"
  using map_of_in_keys[of fs k v] by (simp add: AList.dom_update insert_absorb)

lemma keys_pseudonymize:
  assumes "pseudonymize num_str fs = Some gs"
  shows "fst ` set gs = fst ` set fs"
proof (cases "map_of fs ''abha_id''")
  case None
  then show ?thesis using assms by (simp add: pseudonymize_def)
next
  case (Some v)
  show ?thesis
  proof (cases "truthy v")
    case False
    with Some assms show ?thesis by (simp add: pseudonymize_def)
  next
    case True
    with Some assms obtain p where "gs = AList.update ''abha_id'' p fs"
      by (auto simp: pseudonymize_def)
    then show ?thesis by (simp only: keys_update_present[OF Some])
  qed
qed

lemma trim_notes_cases:
  obtains s where "map_of fs ''notes'' = Some (JStr s)" "s \<noteq> []"
      "trim_notes fs = AList.update ''notes'' (JStr (take 1000 s)) fs"
  | "trim_notes fs = fs" "\<And>s. map_of fs ''notes'' = Some (JStr s) \<Longrightarrow> s = []"
proof (cases "\<exists>s. map_of fs ''notes'' = Some (JStr s) \<and> s \<noteq> []")
  case True
  then obtain s where s: "map_of fs ''notes'' = Some (JStr s)" "s \<noteq> []" by blast
  then have "trim_notes fs = AList.update ''notes'' (JStr (take 1000 s)) fs"
    by (simp add: trim_notes_def)
  with s that(1) show ?thesis by blast
next
  case False
  then have "trim_notes fs = fs"
    by (cases "map_of fs ''notes''"; cases "the (map_of fs ''notes'')") (simp_all add: trim_notes_def)
  with False that(2) show ?thesis by blast
qed

lemma keys_trim_notes: "fst ` set (trim_notes fs) = fst ` set fs"
  by (cases fs rule: trim_notes_cases) (simp_all add: keys_update_present)

lemma map_of_pseudonymize:
  assumes "pseudonymize num_str fs = Some gs"
  shows "map_of gs k =
     (if k = ''abha_id'' then
        (case map_of fs ''abha_id'' of
           Some v \<Rightarrow> if truthy v then pseudonym num_str v else Some v
         | None \<Rightarrow> None)
      else map_of fs k)"
  using assms
  by (auto simp: pseudonymize_def AList.update_conv' split: option.splits if_splits)

lemma map_of_trim_notes_other: "k \<noteq> ''notes'' \<Longrightarrow> map_of (trim_notes fs) k = map_of fs k"
  by (cases fs rule: trim_notes_cases) (simp_all add: AList.update_conv')

lemma trim_notes_idem: "trim_notes (trim_notes fs) = trim_notes fs"
proof (cases fs rule: trim_notes_cases)
  case (1 s)
  have "map_of (trim_notes fs) ''notes'' = Some (JStr (take 1000 s))"
    by (simp add: 1(3) AList.update_conv')
  moreover have "take 1000 s \<noteq> []" using 1(2) by simp
  ultimately have "trim_notes (trim_notes fs) = AList.update ''notes'' (JStr (take 1000 (take 1000 s))) (trim_notes fs)"
    by (simp add: trim_notes_def[of "trim_notes fs"])
  then show ?thesis by (simp add: 1(3))
next
  case 2
  then show ?thesis by simp
qed

lemma slice_last_length: "length (slice_last n s) = min n (length s)"
  by (simp add: slice_last_def)

lemma slice_last_suffix: "suffix (slice_last n s) s"
  by (simp add: slice_last_def suffix_drop)

lemma slice_last_tag: "length t = 6 \<Longrightarrow> slice_last 6 (a # b # c # d # e # t) = t"
  by (simp add: slice_last_def)

lemma pseudonym_fixed:
  assumes "js_String num_str v = Some s" and "6 \<le> length s"
    and "pseudonym num_str v = Some p"
  shows "pseudonym num_str p = Some p"
  using assms by (auto simp: pseudonym_def slice_last_tag slice_last_length)

lemma truthy_pseudonym: "pseudonym num_str v = Some p \<Longrightarrow> truthy p"
  by (auto simp: pseudonym_def)

lemma pseudonym_printed: "pseudonym num_str v = Some p \<Longrightarrow> \<exists>s. js_String num_str v = Some s"
  by (auto simp: pseudonym_def)

text \<open>
  Pseudonymizing again changes nothing where the identifier is absent or falsy, or
  prints with at least six characters.
\<close>

lemma pseudonymize_fixed:
  assumes "pseudonymize num_str fs = Some gs"
    and "\<And>v s. map_of fs ''abha_id'' = Some v \<Longrightarrow> truthy v \<Longrightarrow> js_String num_str v = Some s
           \<Longrightarrow> 6 \<le> length s"
    and "\<And>k. k \<noteq> ''notes'' \<Longrightarrow> map_of hs k = map_of gs k"
  shows "pseudonymize num_str hs = Some hs"
proof (cases "map_of fs ''abha_id''")
  case None
  then have "map_of hs ''abha_id'' = None"
    using assms(3)[of "''abha_id''"] map_of_pseudonymize[OF assms(1), of "''abha_id''"] by simp
  then show ?thesis by (simp add: pseudonymize_def)
next
  case (Some v)
  show ?thesis
  proof (cases "truthy v")
    case False
    with Some have "map_of hs ''abha_id'' = Some v"
      using assms(3)[of "''abha_id''"] map_of_pseudonymize[OF assms(1), of "''abha_id''"] by simp
    with False show ?thesis by (simp add: pseudonymize_def)
  next
    case True
    with Some have h: "map_of hs ''abha_id'' = pseudonym num_str v"
      using assms(3)[of "''abha_id''"] map_of_pseudonymize[OF assms(1), of "''abha_id''"] by simp
    obtain p where p: "pseudonym num_str v = Some p"
      using assms(1) Some True by (auto simp: pseudonymize_def)
    obtain s where s: "js_String num_str v = Some s"
      using pseudonym_printed[OF p] by blast
    have pp: "pseudonym num_str p = Some p"
      using s assms(2)[OF Some True s] p by (rule pseudonym_fixed)
    have "pseudonymize num_str hs = Some (AList.update ''abha_id'' p hs)"
      using h p pp truthy_pseudonym[OF p] by (simp add: pseudonymize_def)
    also have "AList.update ''abha_id'' p hs = hs"
      using h p by (simp add: AList.update_triv)
    finally show ?thesis .
  qed
qed

lemma sanitizePayload_object:
  "sanitizePayload num_str (JObj fs) = Some y \<longleftrightarrow>
     (\<exists>gs. pseudonymize num_str (drop_identifiers fs) = Some gs \<and> y = JObj (trim_notes gs))"
  by (auto simp: sanitizePayload_def)

lemma sanitize_example: "sanitizePayload example_num_str example_patient = Some example_patient_sanitized"
  by (simp add: sanitizePayload_def example_patient_def example_patient_sanitized_def
      drop_identifiers_def pseudonymize_def trim_notes_def pseudonym_def slice_last_def)

text \<open>
  The sanitizer returns on every value but \<open>null\<close> and an object whose truthy
  \<open>abha_id\<close> cannot be converted to a string.
\<close>

lemma sanitizePayload_returns:
  "(\<exists>y. sanitizePayload num_str x = Some y) \<longleftrightarrow>
     x \<noteq> JNull \<and> (\<forall>v. js_get ''abha_id'' x = Some v \<and> truthy v \<longrightarrow> js_String num_str v \<noteq> None)"
proof (cases x)
  case (JObj fs)
  show ?thesis
  proof (cases "map_of fs ''abha_id''")
    case None
    with JObj show ?thesis
      by (simp add: sanitizePayload_def pseudonymize_def map_of_drop_identifiers)
  next
    case (Some v)
    with JObj show ?thesis
      by (auto simp: sanitizePayload_def pseudonymize_def pseudonym_def map_of_drop_identifiers)
  qed
qed (simp_all add: sanitizePayload_def)

text \<open>An identifier that is an object with a key \<open>toString\<close> makes the sanitizer throw.\<close>

lemma sanitizePayload_throws_on_unprintable_id:
  "sanitizePayload example_num_str (JObj [(''abha_id'', JObj [(''toString'', JNum 1)])]) = None"
  by (simp add: sanitizePayload_def drop_identifiers_def pseudonymize_def pseudonym_def)

text \<open>
  C5, as amended. Sanitizing a sanitized payload changes nothing, provided the
  \<open>abha_id\<close> of the payload is absent or falsy, or prints with at least six
  characters: whenever \<open>sanitizePayload\<close> returns \<open>y\<close> for such a payload, it
  returns \<open>y\<close> for \<open>y\<close>.
\<close>

theorem sanitizePayload_idempotent_long_id:
  assumes "sanitizePayload num_str x = Some y"
    and "\<forall>v s. js_get ''abha_id'' x = Some v \<and> truthy v \<and> js_String num_str v = Some s
           \<longrightarrow> 6 \<le> length s"
  shows "sanitizePayload num_str y = Some y"
proof (cases x)
  case (JObj fs)
  let ?a = "drop_identifiers fs"
  obtain gs where gs: "pseudonymize num_str ?a = Some gs" and y: "y = JObj (trim_notes gs)"
    using assms(1) JObj by (auto simp: sanitizePayload_object)
  let ?c = "trim_notes gs"
  have keys: "''name'' \<notin> fst ` set ?c" "''email'' \<notin> fst ` set ?c" "''phone'' \<notin> fst ` set ?c"
    by (simp_all add: keys_trim_notes keys_pseudonymize[OF gs] keys_drop_identifiers)
  have d: "drop_identifiers ?c = ?c"
    using keys by (rule drop_identifiers_id)
  have long: "\<And>v s. map_of ?a ''abha_id'' = Some v \<Longrightarrow> truthy v \<Longrightarrow> js_String num_str v = Some s
                \<Longrightarrow> 6 \<le> length s"
    using assms(2) JObj by (simp add: map_of_drop_identifiers)
  have p: "pseudonymize num_str ?c = Some ?c"
  proof (rule pseudonymize_fixed[OF gs])
    show "6 \<le> length s"
      if "map_of ?a ''abha_id'' = Some v" "truthy v" "js_String num_str v = Some s" for v s
      using long that by blast
    show "map_of ?c k = map_of gs k" if "k \<noteq> ''notes''" for k
      using that by (rule map_of_trim_notes_other)
  qed
  have "sanitizePayload num_str y = map_option (\<lambda>gs. JObj (trim_notes gs)) (pseudonymize num_str (drop_identifiers ?c))"
    by (simp add: y sanitizePayload_def)
  also have "\<dots> = Some (JObj ?c)"
    by (simp only: d p option.map trim_notes_idem)
  finally show ?thesis by (simp add: y)
qed (use assms(1) in \<open>auto simp: sanitizePayload_def\<close>)

text \<open>The theorem at a payload with a fourteen-digit identifier.\<close>

theorem sanitizePayload_idempotent_long_id_witness:
  "sanitizePayload example_num_str example_patient = Some example_patient_sanitized
   \<and> sanitizePayload example_num_str example_patient_sanitized = Some example_patient_sanitized"
proof -
  have long: "\<forall>v s. js_get ''abha_id'' example_patient = Some v \<and> truthy v
                      \<and> js_String example_num_str v = Some s
                \<longrightarrow> 6 \<le> length s"
    by (auto simp: example_patient_def)
  show ?thesis
    using sanitizePayload_idempotent_long_id[OF sanitize_example long] sanitize_example
    by simp
qed

text \<open>
  C5 as stated fails for an identifier shorter than six characters: the pseudonym
  \<open>user_abc\<close> of \<open>abc\<close> is itself pseudonymized to \<open>user_er_abc\<close>.
\<close>

theorem sanitizePayload_not_idempotent_short_id:
  "sanitizePayload example_num_str (JObj [(''abha_id'', JStr ''abc'')])
     = Some (JObj [(''abha_id'', JStr ''user_abc'')])
   \<and> sanitizePayload example_num_str (JObj [(''abha_id'', JStr ''user_abc'')])
     = Some (JObj [(''abha_id'', JStr ''user_er_abc'')])"
  by (simp add: sanitizePayload_def drop_identifiers_def pseudonymize_def trim_notes_def
      pseudonym_def slice_last_def)

text \<open>Every other top-level property is returned as it is.\<close>

lemma sanitizePayload_other_keys:
  assumes "sanitizePayload num_str x = Some y"
    and "k \<notin> {''name'', ''email'', ''phone'', ''abha_id'', ''notes''}"
  shows "js_get k y = js_get k x"
proof (cases x)
  case (JObj fs)
  then obtain gs where gs: "pseudonymize num_str (drop_identifiers fs) = Some gs"
    and y: "y = JObj (trim_notes gs)"
    using assms(1) by (auto simp: sanitizePayload_object)
  show ?thesis
    using assms(2) JObj
    by (simp add: y map_of_trim_notes_other map_of_pseudonymize[OF gs] map_of_drop_identifiers)
qed (use assms(1) in \<open>auto simp: sanitizePayload_def\<close>)

text \<open>
  C6, as amended. Whenever \<open>sanitizePayload\<close> returns, its result has no top-level
  \<open>name\<close>, \<open>email\<close> or \<open>phone\<close> key; a truthy \<open>abha_id\<close> has become \<open>user_\<close>
  followed by the last six characters of its printed value (all of them when there are
  fewer), and a falsy \<open>abha_id\<close> (empty, zero, \<open>false\<close>, \<open>null\<close>) is left as it is.
\<close>

theorem sanitizePayload_removes_identifiers:
  assumes "sanitizePayload num_str x = Some y"
  shows "js_get ''name'' y = None \<and> js_get ''email'' y = None \<and> js_get ''phone'' y = None
       \<and> (\<forall>v. js_get ''abha_id'' x = Some v \<longrightarrow>
            (if truthy v
             then \<exists>s t. js_String num_str v = Some s
                      \<and> js_get ''abha_id'' y = Some (JStr (''user_'' @ t))
                      \<and> suffix t s
                      \<and> length t = min 6 (length s)
             else js_get ''abha_id'' y = Some v))
       \<and> (js_get ''abha_id'' x = None \<longrightarrow> js_get ''abha_id'' y = None)"
proof (cases x)
  case (JObj fs)
  obtain gs where gs: "pseudonymize num_str (drop_identifiers fs) = Some gs"
    and y: "y = JObj (trim_notes gs)"
    using assms JObj by (auto simp: sanitizePayload_object)
  let ?c = "trim_notes gs"
  have gone: "map_of ?c ''name'' = None" "map_of ?c ''email'' = None" "map_of ?c ''phone'' = None"
    by (simp_all add: map_of_trim_notes_other map_of_pseudonymize[OF gs] map_of_drop_identifiers)
  have abha: "map_of ?c ''abha_id'' =
      (case map_of fs ''abha_id'' of
         Some v \<Rightarrow> if truthy v then pseudonym num_str v else Some v | None \<Rightarrow> None)"
    by (simp add: map_of_trim_notes_other map_of_pseudonymize[OF gs] map_of_drop_identifiers)
  have printed: "\<exists>p. pseudonym num_str v = Some p" if "map_of fs ''abha_id'' = Some v" "truthy v" for v
    using gs that by (auto simp: pseudonymize_def map_of_drop_identifiers)
  have "\<exists>s t. js_String num_str v = Some s \<and> p = JStr (''user_'' @ t)
           \<and> suffix t s \<and> length t = min 6 (length s)" if "pseudonym num_str v = Some p" for v p
    using that slice_last_suffix[of 6] slice_last_length[of 6]
    by (auto simp: pseudonym_def)
  then show ?thesis
    using gone abha JObj printed by (fastforce simp: y)
qed (use assms in \<open>auto simp: sanitizePayload_def\<close>)

text \<open>The theorem at the same payload.\<close>

theorem sanitizePayload_removes_identifiers_witness:
  "sanitizePayload example_num_str example_patient = Some example_patient_sanitized
   \<and> js_get ''name'' example_patient_sanitized = None
   \<and> js_get ''email'' example_patient_sanitized = None
   \<and> js_get ''phone'' example_patient_sanitized = None
   \<and> js_get ''abha_id'' example_patient_sanitized = Some (JStr ''user_901234'')"
  using sanitizePayload_removes_identifiers[OF sanitize_example] sanitize_example
  by (simp add: example_patient_sanitized_def)

text \<open>
  C6 as stated fails for an \<open>abha_id\<close> that is present and empty: it stays the empty
  string and gets no \<open>user_\<close> tag. The payload below comes back as it is, the
  \<open>name\<close> inside its record included.
\<close>

theorem sanitizePayload_keeps_falsy_id:
  "js_get ''abha_id'' example_merged_records = Some (JStr [])
   \<and> sanitizePayload example_num_str example_merged_records = Some example_merged_records"
  by (simp add: sanitizePayload_def example_merged_records_def drop_identifiers_def
      pseudonymize_def trim_notes_def)

section \<open>Reading the model's output: properties\<close>

lemma json_block_embedded:
  assumes "CHR ''{'' \<notin> set pre" and "CHR ''}'' \<notin> set post"
  shows "json_block (pre @ (CHR ''{'' # mid @ [CHR ''}'']) @ post) = Some (CHR ''{'' # mid @ [CHR ''}''])"
proof -
  let ?obj = "CHR ''{'' # mid @ [CHR ''}'']"
  have "dropWhile (\<lambda>c. c \<noteq> CHR ''{'') (pre @ ?obj @ post)
          = dropWhile (\<lambda>c. c \<noteq> CHR ''{'') (?obj @ post)"
    by (rule dropWhile_append2) (use assms(1) in blast)
  then have t: "dropWhile (\<lambda>c. c \<noteq> CHR ''{'') (pre @ ?obj @ post) = ?obj @ post"
    by simp
  have "dropWhile (\<lambda>c. c \<noteq> CHR ''}'') (rev post @ (CHR ''}'' # rev mid @ [CHR ''{'']))
          = dropWhile (\<lambda>c. c \<noteq> CHR ''}'') (CHR ''}'' # rev mid @ [CHR ''{''])"
    by (rule dropWhile_append2) (use assms(2) in auto)
  then have "dropWhile (\<lambda>c. c \<noteq> CHR ''}'') (rev (?obj @ post)) = CHR ''}'' # rev mid @ [CHR ''{'']"
    by simp
  then have r: "rev (dropWhile (\<lambda>c. c \<noteq> CHR ''}'') (rev (?obj @ post))) = ?obj"
    by simp
  have m: "CHR ''}'' \<in> set (tl (?obj @ post))"
    by simp
  show ?thesis
    unfolding json_block_def Let_def t using r m by simp
qed

text \<open>
  When the output text is no JSON as a whole and holds the text of a JSON object (from
  its \<open>{\<close> to its \<open>}\<close>) with no \<open>{\<close> in the prose before it and no \<open>}\<close>
  in the prose after it, the adapter matches exactly the object's text, parses it, and
  returns the object, with \<open>model_version\<close> and \<open>generated_on\<close> filled in where
  they are missing.
\<close>

lemma parse_model_output_prose_without_braces:
  assumes "JSON_parse (pre @ (CHR ''{'' # mid @ [CHR ''}'']) @ post) = None"
    and "CHR ''{'' \<notin> set pre" and "CHR ''}'' \<notin> set post"
    and "JSON_parse (CHR ''{'' # mid @ [CHR ''}'']) = Some (JObj fs)"
  shows "json_block (pre @ (CHR ''{'' # mid @ [CHR ''}'']) @ post) = Some (CHR ''{'' # mid @ [CHR ''}''])
       \<and> parse_model_output JSON_parse ev model_name (pre @ (CHR ''{'' # mid @ [CHR ''}'']) @ post)
           = Inr (with_metadata ev model_name (JObj fs))"
  using assms json_block_embedded[OF assms(2,3), of mid]
  by (simp add: parse_model_output_def ensure_metadata_def)

text \<open>An object wrapped in a sentence before and a sentence after.\<close>

lemma parse_model_output_prose_without_braces_example:
  "parse_model_output example_JSON_parse example_env ''m''
     (''Here is the analysis: '' @ example_object_text @ '' I hope it helps.'')
   = Inr (JObj [(''risk'', JNum 40), (''model_version'', JStr ''m-v1''),
                (''generated_on'', JStr ''2025-01-01T00:00:00.000Z'')])"
proof -
  have o: "example_object_text = CHR ''{'' # ''\"risk\":40'' @ [CHR ''}'']"
    by (simp add: example_object_text_def)
  have w: "with_metadata example_env ''m'' (JObj [(''risk'', JNum 40)])
         = JObj [(''risk'', JNum 40), (''model_version'', JStr ''m-v1''),
                 (''generated_on'', JStr ''2025-01-01T00:00:00.000Z'')]"
    by (simp add: with_metadata_def js_or_else_def example_env_def)
  have p: "example_JSON_parse (''Here is the analysis: '' @ (CHR ''{'' # ''\"risk\":40'' @ [CHR ''}'']) @ '' I hope it helps.'') = None"
    by (simp add: example_JSON_parse_def example_object_text_def)
  have q: "example_JSON_parse (CHR ''{'' # ''\"risk\":40'' @ [CHR ''}'']) = Some (JObj [(''risk'', JNum 40)])"
    by (simp add: example_JSON_parse_def example_object_text_def)
  show ?thesis
    using parse_model_output_prose_without_braces[where JSON_parse = example_JSON_parse
        and pre = "''Here is the analysis: ''" and mid = "''\"risk\":40''" and post = "'' I hope it helps.''"
        and fs = "[(''risk'', JNum 40)]" and ev = example_env and model_name = "''m''", OF p _ _ q]
    by (simp add: o w)
qed

text \<open>
  C7. The claim: for every output text that is no JSON as a whole and holds exactly one
  JSON object embedded in prose, the adapter extracts the first \<open>{...}\<close> block,
  parses only that substring, and returns the object. The adapter means to do so (it
  falls back to extracting the first JSON block, and describes itself as extracting
  the first JSON object when the model emits extra text), but its pattern matches from
  the first \<open>{\<close> of the text to its last \<open>}\<close>. On the text below, whose prose
  holds a pair of braces before the one object, the match runs from the braces of the
  prose to the end of the object, that text is no JSON, and the adapter throws where
  the claim has it return the object.
\<close>

theorem parse_model_output_prose_with_braces:
  "example_JSON_parse example_object_text = Some (JObj [(''risk'', JNum 40)])
   \<and> example_JSON_parse (''Fields in {braces} are estimates. '' @ example_object_text) = None
   \<and> json_block (''Fields in {braces} are estimates. '' @ example_object_text)
       = Some (''{braces} are estimates. '' @ example_object_text)
   \<and> parse_model_output example_JSON_parse example_env ''m''
        (''Fields in {braces} are estimates. '' @ example_object_text)
       = Inl (Thrown (js_Error ''Failed to parse JSON from the model output after extracting JSON block''))"
  by (simp add: parse_model_output_def json_block_def example_JSON_parse_def example_object_text_def)

text \<open>
  The same happens with a closing brace in the prose after the object: the match runs
  from the object's \<open>{\<close> to the brace of the prose.
\<close>

lemma parse_model_output_brace_after_object:
  "json_block (example_object_text @ '' (estimate, see note})'')
       = Some (example_object_text @ '' (estimate, see note}'')
   \<and> parse_model_output example_JSON_parse example_env ''m''
        (example_object_text @ '' (estimate, see note})'')
       = Inl (Thrown (js_Error ''Failed to parse JSON from the model output after extracting JSON block''))"
  by (simp add: parse_model_output_def json_block_def example_JSON_parse_def example_object_text_def)

section \<open>Batches: properties\<close>

lemma collect_results:
  "\<exists>tr'. collect settled i batch (results, tr)
            = (results @ map (\<lambda>(j, r). case settled j r of Inr v \<Rightarrow> Some v | Inl e \<Rightarrow> None) (enumerate i batch), tr')
         \<and> calls tr' = calls tr + length batch
         \<and> delays tr' = delays tr"
proof (induction batch arbitrary: i results tr)
  case Nil
  then show ?case by simp
next
  case (Cons r rs)
  show ?case
  proof (cases "settled i r")
    case (Inl reason)
    then show ?thesis
      using Cons[of "Suc i" "results @ [None]"] by (simp del: append_assoc) force
  next
    case (Inr v)
    then show ?thesis
      using Cons[of "Suc i" "results @ [Some v]"] by (simp del: append_assoc) force
  qed
qed

lemma enumerate_take_drop:
  "enumerate i (take b ys) @ enumerate (i + b) (drop b ys) = enumerate i ys"
proof (cases "b \<le> length ys")
  case True
  have "enumerate i (take b ys @ drop b ys)
          = enumerate i (take b ys) @ enumerate (i + length (take b ys)) (drop b ys)"
    by (rule enumerate_append_eq)
  with True show ?thesis by (simp add: min_absorb2)
next
  case False
  then show ?thesis by simp
qed

lemma analyzeBatch_loop_results:
  assumes "0 < batchSize"
  shows "\<exists>tr'. analyzeBatch_loop settled analyses batchSize delayMs i (results, tr)
            = Some (results @ map (\<lambda>(j, r). case settled j r of Inr v \<Rightarrow> Some v | Inl e \<Rightarrow> None)
                              (enumerate i (drop i analyses)), tr')"
proof (induction "length analyses - i" arbitrary: i results tr rule: less_induct)
  case less
  show ?case
  proof (cases "i < length analyses")
    case False
    then show ?thesis
      by (subst analyzeBatch_loop.simps) simp
  next
    case True
    let ?f = "\<lambda>(j, r). case settled j r of Inr v \<Rightarrow> Some v | Inl e \<Rightarrow> None"
    let ?batch = "take batchSize (drop i analyses)"
    obtain tr1 where c: "collect settled i ?batch (results, tr) = (results @ map ?f (enumerate i ?batch), tr1)"
      using collect_results[of settled i ?batch results tr] by blast
    let ?tr2 = "if i + batchSize < length analyses then tr1\<lparr>delays := delays tr1 @ [delayMs]\<rparr> else tr1"
    have "length analyses - (i + batchSize) < length analyses - i"
      using True assms by simp
    then obtain tr' where IH:
      "analyzeBatch_loop settled analyses batchSize delayMs (i + batchSize)
         (results @ map ?f (enumerate i ?batch), ?tr2)
       = Some ((results @ map ?f (enumerate i ?batch))
                 @ map ?f (enumerate (i + batchSize) (drop (i + batchSize) analyses)), tr')"
      using less[of "i + batchSize" "results @ map ?f (enumerate i ?batch)" ?tr2] by blast
    have split: "enumerate i ?batch @ enumerate (i + batchSize) (drop (i + batchSize) analyses)
                   = enumerate i (drop i analyses)"
      using enumerate_take_drop[of i batchSize "drop i analyses"] by (simp add: add.commute)
    have "map ?f (enumerate i ?batch) @ map ?f (enumerate (i + batchSize) (drop (i + batchSize) analyses))
            = map ?f (enumerate i (drop i analyses))"
      unfolding map_append[symmetric] split ..
    then have "analyzeBatch_loop settled analyses batchSize delayMs (i + batchSize)
         (results @ map ?f (enumerate i ?batch), ?tr2)
       = Some (results @ map ?f (enumerate i (drop i analyses)), tr')"
      using IH by simp
    moreover have "analyzeBatch_loop settled analyses batchSize delayMs i (results, tr)
        = analyzeBatch_loop settled analyses batchSize delayMs (i + batchSize)
            (results @ map ?f (enumerate i ?batch), ?tr2)"
      using True c by (subst analyzeBatch_loop.simps) simp
    ultimately show ?thesis by simp
  qed
qed

text \<open>With a batch size of zero and a request to process the loop never returns.\<close>

lemma analyzeBatch_loop_zero_batch:
  assumes "analyzeBatch_loop settled analyses batchSize delayMs i st = Some r"
  shows "\<not> (batchSize = 0 \<and> i < length analyses)"
proof (rule analyzeBatch_loop.raw_induct[where
      P = "\<lambda>settled analyses batchSize delayMs i st r. \<not> (batchSize = 0 \<and> i < length analyses)",
      OF _ assms])
  fix loop :: "settled \<Rightarrow> request list \<Rightarrow> nat \<Rightarrow> nat \<Rightarrow> nat \<Rightarrow> json option list \<times> trace
     \<Rightarrow> (json option list \<times> trace) option"
  fix settled' analyses' batchSize' delayMs' i' st' r'
  assume IH: "\<And>s a b d j t y. loop s a b d j t = Some y \<Longrightarrow> \<not> (b = 0 \<and> j < length a)"
  assume body: "(if i' < length analyses'
      then loop settled' analyses' batchSize' delayMs' (i' + batchSize')
            (case collect settled' i' (take batchSize' (drop i' analyses')) st' of
             (results, tr) \<Rightarrow>
               (results,
                if i' + batchSize' < length analyses'
                then tr\<lparr>delays := delays tr @ [delayMs']\<rparr> else tr))
      else Some st') = Some r'"
  show "\<not> (batchSize' = 0 \<and> i' < length analyses')"
  proof
    assume z: "batchSize' = 0 \<and> i' < length analyses'"
    then obtain t where "loop settled' analyses' batchSize' delayMs' (i' + batchSize') t = Some r'"
      using body by simp
    from IH[OF this] z show False by simp
  qed
qed

lemma analyzeBatch_zero_batch:
  "analyses \<noteq> [] \<Longrightarrow> analyzeBatch settled analyses 0 delayMs = None"
  using analyzeBatch_loop_zero_batch[of settled analyses 0 delayMs 0 "([], trace0)"]
  by (cases "analyzeBatch settled analyses 0 delayMs") (auto simp: analyzeBatch_def)

text \<open>
  C10. With a batch size of at least one (the default is 5), \<open>analyzeBatch\<close> returns
  for every list of requests: the results have the length of the input, and position
  \<open>i\<close> holds the analysis when the call for request \<open>i\<close> was fulfilled and \<open>null\<close>
  when it was rejected, whatever the other calls did.
\<close>

theorem analyzeBatch_results:
  assumes "0 < batchSize"
  shows "\<exists>results tr. analyzeBatch settled analyses batchSize delayMs = Some (results, tr)
           \<and> length results = length analyses
           \<and> (\<forall>i<length analyses.
                 results ! i = (case settled i (analyses ! i) of Inr v \<Rightarrow> Some v | Inl e \<Rightarrow> None))"
proof -
  let ?f = "\<lambda>(j, r). case settled j r of Inr v \<Rightarrow> Some v | Inl e \<Rightarrow> None"
  obtain tr where "analyzeBatch settled analyses batchSize delayMs
                     = Some (map ?f (enumerate 0 analyses), tr)"
    using analyzeBatch_loop_results[OF assms, of settled analyses delayMs 0 "[]" trace0]
    by (auto simp: analyzeBatch_def)
  moreover have "length (map ?f (enumerate 0 analyses)) = length analyses"
    by simp
  moreover have "\<forall>i<length analyses. map ?f (enumerate 0 analyses) ! i
        = (case settled i (analyses ! i) of Inr v \<Rightarrow> Some v | Inl e \<Rightarrow> None)"
    by (simp add: nth_enumerate_eq)
  ultimately show ?thesis by blast
qed

text \<open>The theorem at three requests in batches of two, the second request failing.\<close>

theorem analyzeBatch_results_witness:
  "\<exists>results tr. analyzeBatch example_settled example_requests 2 2000 = Some (results, tr)
     \<and> results = [Some (example_v2_reply 40), None, Some (example_v2_reply 40)]"
proof -
  obtain results tr where r: "analyzeBatch example_settled example_requests 2 2000 = Some (results, tr)"
      "length results = length example_requests"
      "\<forall>i<length example_requests.
          results ! i = (case example_settled i (example_requests ! i) of Inr v \<Rightarrow> Some v | Inl e \<Rightarrow> None)"
    using analyzeBatch_results[of 2 example_settled example_requests 2000] by auto
  have len: "length results = 3"
    using r(2) by (simp add: example_requests_def)
  have "results ! 0 = Some (example_v2_reply 40)" "results ! Suc 0 = None"
      "results ! Suc (Suc 0) = Some (example_v2_reply 40)"
    using r(3) by (simp_all add: example_requests_def example_settled_def)
  with len have "results = [Some (example_v2_reply 40), None, Some (example_v2_reply 40)]"
    by (auto simp: list_eq_iff_nth_eq less_Suc_eq numeral_3_eq_3)
  with r(1) show ?thesis by blast
qed

end
